theory Spec2Isabelle
  imports Complex_Main
begin

section \<open>Data model\<close>

text \<open>
  One row of the season table \<^verbatim>\<open>pl-tables-1993-2023.csv\<close>. The numeric columns are
  NumPy floats in the program; they are modelled as reals and the arithmetic on them
  is exact, so the rounding of IEEE arithmetic is outside the model. The one operation
  whose range decides what the program does, \<^verbatim>\<open>np.exp\<close>, is modelled with the
  underflow and the overflow of float64.
\<close>

record season_row =
  team :: string
  season_end_year :: int
  points :: real
  gf :: real
  ga :: real
  gd :: real
  won :: real
  drawn :: real
  lost :: real
  position :: real

text \<open>The names in the list \<^verbatim>\<open>features\<close>, and the column each of them reads.\<close>

datatype column = Points | Gf | Ga | Gd | Won | Drawn | Lost

fun col :: "column \<Rightarrow> season_row \<Rightarrow> real" where
  "col Points r = points r"
| "col Gf r = gf r"
| "col Ga r = ga r"
| "col Gd r = gd r"
| "col Won r = won r"
| "col Drawn r = drawn r"
| "col Lost r = lost r"

definition features :: "column list" where
  "features = [Points, Gf, Ga, Gd, Won, Drawn, Lost]"

text \<open>
  Exceptions of the program and of the library calls it makes, as values.
  \<open>NoHistoricalData y\<close> is the \<^verbatim>\<open>ValueError("No historical data available before y.")\<close>
  of \<^verbatim>\<open>compare_predictions_with_confidence\<close> (the spec's \<open>EmptyTrainingSet\<close>).
  \<open>PercentileRangeError\<close> is NumPy's \<^verbatim>\<open>ValueError("Percentiles must be in the range [0, 100]")\<close>,
  \<open>EmptyFitError\<close> is scikit-learn's \<^verbatim>\<open>ValueError\<close> for a training array with no sample
  or no feature. \<open>InsufficientBootstrapSamples\<close> is the error kind the spec names; no
  statement of the program raises it.

  \<open>NonFiniteAverage\<close> is no exception: it stands for the result \<^verbatim>\<open>nan\<close> of \<^verbatim>\<open>np.average\<close>
  when a weight is \<^verbatim>\<open>inf\<close>. The series that \<^verbatim>\<open>weighted_average\<close> returns then holds
  \<^verbatim>\<open>nan\<close> under every feature, and the model follows the program no further: what the
  regressor does with such a row depends on the version of scikit-learn. It needs a
  row later than the reference year (\<open>weighted_average_finite\<close> below), and the rows that
  \<^verbatim>\<open>compare_predictions_with_confidence\<close> and \<^verbatim>\<open>cross_validate_time_series\<close> aggregate
  are earlier than it.
\<close>

datatype error =
    NoHistoricalData int
  | ZeroDivisionError
  | IndexError
  | KeyError
  | PercentileRangeError
  | EmptyFitError
  | NonFiniteAverage
  | InsufficientBootstrapSamples

text \<open>
  The state of NumPy's global random generator: the sequence of values that the
  coming calls of \<^verbatim>\<open>np.random.normal(0, 0.01, k)\<close> will return. A call takes the first
  \<open>k\<close> of them.
\<close>

type_synonym rng = "nat \<Rightarrow> real"

definition random_normal :: "rng \<Rightarrow> nat \<Rightarrow> real list \<times> rng" where
  "random_normal g k = (map g [0..<k], \<lambda>i. g (i + k))"

section \<open>Library functions\<close>

text \<open>
  \<^verbatim>\<open>np.polyfit(x, y, 1)[0]\<close>: the slope of the least-squares line. When the abscissae
  are not all equal this is the usual closed form. When they are all equal to some
  \<open>c\<close> the system has rank 1 and \<^verbatim>\<open>lstsq\<close> returns the minimum-norm solution of the
  column-scaled system, whose slope is \<open>mean y / (2 c)\<close>; for \<open>c = 0\<close> the scaling
  divides by zero and \<^verbatim>\<open>lstsq\<close> raises \<^verbatim>\<open>LinAlgError\<close> (\<open>None\<close>).
\<close>

definition polyfit_slope :: "real list \<Rightarrow> real list \<Rightarrow> real option" where
  "polyfit_slope xs ys =
     (let n = real (length xs);
          sx = sum_list xs;
          sy = sum_list ys;
          sxx = sum_list (map (\<lambda>x. x * x) xs);
          sxy = sum_list (map2 (*) xs ys);
          d = n * sxx - sx * sx
      in if d \<noteq> 0 then Some ((n * sxy - sx * sy) / d)
         else if sx \<noteq> 0 then Some ((sy / n) / (2 * (sx / n)))
         else None)"

text \<open>
  \<^verbatim>\<open>np.exp\<close> on float64. A result of at least \<open>2^1024 - 2^970\<close> rounds to \<^verbatim>\<open>inf\<close>, which
  is \<open>None\<close> (NumPy warns and goes on); a result of at most \<open>2^-1075\<close>, half the least
  positive float, rounds to \<open>0.0\<close>. In between the value is the exact exponential:
  rounding, which is coarse for the subnormal results below \<open>2^-1022\<close>, is outside the
  model.
\<close>

definition overflow_threshold :: real where
  "overflow_threshold = 2 ^ 1024 - 2 ^ 970"

definition underflow_threshold :: real where
  "underflow_threshold = 1 / 2 ^ 1075"

definition min_normal :: real where
  "min_normal = 1 / 2 ^ 1022"

definition np_exp :: "real \<Rightarrow> real option" where
  "np_exp x =
     (if overflow_threshold \<le> exp x then None
      else if exp x \<le> underflow_threshold then Some 0
      else Some (exp x))"

text \<open>
  \<^verbatim>\<open>np.average(a, weights=w)\<close>: raises \<^verbatim>\<open>ZeroDivisionError\<close> when the weights sum to
  zero (in particular on an empty column, and when every weight has underflowed to 0).
  With a weight \<^verbatim>\<open>inf\<close> the sum of the weights is \<^verbatim>\<open>inf\<close> and the quotient is \<^verbatim>\<open>nan\<close>.
\<close>

definition np_average :: "real list \<Rightarrow> real option list \<Rightarrow> error + real" where
  "np_average a w =
     (case those w of
        None \<Rightarrow> Inl NonFiniteAverage
      | Some ws \<Rightarrow>
          let scl = sum_list ws
          in if scl = 0 then Inl ZeroDivisionError
             else Inr (sum_list (map2 (*) a ws) / scl))"

section \<open>TrendEstimator: \<^verbatim>\<open>calculate_recent_form_score\<close>\<close>

definition clamp_form :: "real \<Rightarrow> real" where
  "clamp_form form_score = max (- 3) (min 3 form_score)"

text \<open>Line 54: the rows of the last seasons.\<close>

definition recent_rows :: "season_row list \<Rightarrow> int \<Rightarrow> int \<Rightarrow> season_row list" where
  "recent_rows team_data current_year last_n_seasons =
     filter (\<lambda>r. season_end_year r \<ge> current_year - last_n_seasons) team_data"

text \<open>
  Lines 66--70: the years of the sorted recent rows, counted from the earliest, with
  the noise added when they are all the same. Only this step reads the global random
  generator.
\<close>

definition fit_years :: "rng \<Rightarrow> season_row list \<Rightarrow> real list \<times> rng" where
  "fit_years g recent_data =
     (let ymin = Min (set (map season_end_year recent_data));
          years_normalized = map (\<lambda>r. real_of_int (season_end_year r - ymin)) recent_data
      in if length (remdups years_normalized) < 2
         then let (noise, g') = random_normal g (length years_normalized)
              in (map2 (+) years_normalized noise, g')
         else (years_normalized, g))"

text \<open>
  Lines 48--91. \<^verbatim>\<open>sort_values\<close> is modelled by the stable \<open>sort_key\<close>: rows of one season
  keep their order. The handler of line 87 turns a failed fit into the score 0.
\<close>

definition calculate_recent_form_score ::
    "rng \<Rightarrow> season_row list \<Rightarrow> int \<Rightarrow> int \<Rightarrow> real \<times> rng" where
  "calculate_recent_form_score g team_data current_year last_n_seasons =
     (let recent_data = recent_rows team_data current_year last_n_seasons
      in if length recent_data < 2 then (0, g)
         else
           let recent_data = sort_key season_end_year recent_data;
               (years_normalized, g') = fit_years g recent_data
           in case polyfit_slope years_normalized (map points recent_data) of
                None \<Rightarrow> (0, g')
              | Some points_trend \<Rightarrow>
                  (case polyfit_slope years_normalized (map position recent_data) of
                     None \<Rightarrow> (0, g')
                   | Some position_slope \<Rightarrow>
                       let position_trend = - position_slope;
                           points_trend_scaled = points_trend / 5;
                           position_trend_scaled = position_trend / 2;
                           form_score = (points_trend_scaled * 0.6) + (position_trend_scaled * 0.4)
                       in (clamp_form form_score, g')))"

section \<open>FeatureAggregator: \<^verbatim>\<open>weighted_average\<close>\<close>

definition year_weight :: "int \<Rightarrow> real option" where
  "year_weight year_diff = np_exp (- real_of_int year_diff / 1.05)"

definition row_weight :: "int \<Rightarrow> season_row \<Rightarrow> real option" where
  "row_weight current_year r = year_weight (current_year - season_end_year r)"

text \<open>
  The differences of years at which \<^verbatim>\<open>np.exp\<close> returns a normal float, neither
  \<^verbatim>\<open>inf\<close> nor zero nor subnormal, and the weight it then returns.
\<close>

definition weight_is_normal :: "int \<Rightarrow> bool" where
  "weight_is_normal year_diff =
     (min_normal \<le> exp (- real_of_int year_diff / 1.05)
      \<and> exp (- real_of_int year_diff / 1.05) < overflow_threshold)"

definition real_weight :: "int \<Rightarrow> season_row \<Rightarrow> real" where
  "real_weight current_year r = exp (- real_of_int (current_year - season_end_year r) / 1.05)"

text \<open>
  The \<^verbatim>\<open>pd.Series\<close> the function returns: the dictionary of weighted averages, in
  insertion order, and the entry \<^verbatim>\<open>recent_form_score\<close>.
\<close>

record trend_features =
  weighted_avg :: "(column \<times> real) list"
  recent_form_score :: real

text \<open>The loop \<^verbatim>\<open>for feature in features\<close>.\<close>

fun weighted_avg_loop ::
    "season_row list \<Rightarrow> real option list \<Rightarrow> column list \<Rightarrow> error + (column \<times> real) list"
    where
  "weighted_avg_loop team_data w [] = Inr []"
| "weighted_avg_loop team_data w (feature # rest) =
     (case np_average (map (col feature) team_data) w of
        Inl e \<Rightarrow> Inl e
      | Inr v \<Rightarrow>
          (case weighted_avg_loop team_data w rest of
             Inl e \<Rightarrow> Inl e
           | Inr avgs \<Rightarrow> Inr ((feature, v) # avgs)))"

definition weighted_average ::
    "rng \<Rightarrow> season_row list \<Rightarrow> column list \<Rightarrow> int \<Rightarrow> error + (trend_features \<times> rng)" where
  "weighted_average g team_data fs current_year =
     (case weighted_avg_loop team_data (map (row_weight current_year) team_data) fs of
        Inl e \<Rightarrow> Inl e
      | Inr avgs \<Rightarrow>
          let (recent_form, g') = calculate_recent_form_score g team_data current_year 3
          in Inr (\<lparr>weighted_avg = avgs, recent_form_score = recent_form\<rparr>, g'))"

text \<open>
  \<^verbatim>\<open>trend_features[features].values\<close>: the entries of the series under the given keys;
  a key that is absent raises \<^verbatim>\<open>KeyError\<close>, which is \<open>None\<close> here.
\<close>

fun select_values :: "(column \<times> real) list \<Rightarrow> column list \<Rightarrow> real list option" where
  "select_values avgs [] = Some []"
| "select_values avgs (f # fs) =
     (case map_of avgs f of
        None \<Rightarrow> None
      | Some v \<Rightarrow> (case select_values avgs fs of None \<Rightarrow> None | Some vs \<Rightarrow> Some (v # vs)))"

section \<open>RankPredictor\<close>

text \<open>
  The regression model is a parameter: \<open>rf X y x\<close> is the value that
  \<^verbatim>\<open>RandomForestRegressor(n_estimators=100, random_state=42).fit(X, y).predict([x])[0]\<close>
  returns. The seed is the constant 42 at every construction, so the fitted model is a
  function of the training data alone.
\<close>

type_synonym regressor = "real list list \<Rightarrow> real list \<Rightarrow> real list \<Rightarrow> real"

definition rf_fit ::
    "regressor \<Rightarrow> season_row list \<Rightarrow> column list \<Rightarrow> (season_row \<Rightarrow> real)
      \<Rightarrow> error + (real list \<Rightarrow> real)" where
  "rf_fit rf train fs target =
     (if train = [] \<or> fs = [] then Inl EmptyFitError
      else Inr (rf (map (\<lambda>r. map (\<lambda>f. col f r) fs) train) (map target train)))"

text \<open>
  The momentum adjustment and the bounds, written three times in the program
  (lines 134--137, 216--219 and 281--286).
\<close>

definition adjust_prediction :: "real \<Rightarrow> real \<Rightarrow> real" where
  "adjust_prediction predicted_pos form_score =
     (let form_adjustment = - form_score * 0.05;
          adjusted_prediction = predicted_pos + form_adjustment
      in max 1 (min 20 adjusted_prediction))"

text \<open>
  \<^verbatim>\<open>X_team = trend_features[features].values.reshape(1, -1)\<close>, the prediction of the
  model on it, and the adjustment.
\<close>

definition predict_adjusted ::
    "(real list \<Rightarrow> real) \<Rightarrow> column list \<Rightarrow> trend_features \<Rightarrow> error + real" where
  "predict_adjusted model fs tf =
     (case select_values (weighted_avg tf) fs of
        None \<Rightarrow> Inl KeyError
      | Some X_team \<Rightarrow>
          let predicted_pos = model X_team
          in Inr (adjust_prediction predicted_pos (recent_form_score tf)))"

section \<open>ConfidenceEstimator: \<^verbatim>\<open>bootstrap_confidence_interval_recent_form\<close>\<close>

text \<open>
  \<open>smp i d\<close> is \<^verbatim>\<open>d.sample(n=len(d), replace=True, random_state=i)\<close>: pandas builds a
  generator of its own from the seed \<open>i\<close>, so the resample is a function of the seed
  and the data.
\<close>

type_synonym sampler = "nat \<Rightarrow> season_row list \<Rightarrow> season_row list"

text \<open>
  \<^verbatim>\<open>np.mean\<close> and \<^verbatim>\<open>np.std\<close> (population form, \<^verbatim>\<open>ddof=0\<close>); on an empty array both
  return \<^verbatim>\<open>nan\<close> with a warning, which is \<open>None\<close> here.
\<close>

definition np_mean :: "real list \<Rightarrow> real option" where
  "np_mean xs = (if xs = [] then None else Some (sum_list xs / real (length xs)))"

definition np_std :: "real list \<Rightarrow> real option" where
  "np_std xs =
     (case np_mean xs of
        None \<Rightarrow> None
      | Some m \<Rightarrow> Some (sqrt (sum_list (map (\<lambda>x. (x - m) * (x - m)) xs) / real (length xs))))"

text \<open>
  \<^verbatim>\<open>np.percentile(a, q)\<close> with the default method \<^verbatim>\<open>linear\<close>: the virtual index
  \<open>(n - 1) * q / 100\<close> in the sorted data, interpolated between its two neighbours.
  A \<open>q\<close> outside \<open>[0, 100]\<close> raises \<^verbatim>\<open>ValueError\<close>; an empty array raises
  \<^verbatim>\<open>IndexError\<close> (NumPy 1.22 and later; earlier versions return \<^verbatim>\<open>nan\<close>).
\<close>

definition linear_interp :: "real list \<Rightarrow> real \<Rightarrow> real" where
  "linear_interp s virtual_index =
     (let previous_index = nat \<lfloor>virtual_index\<rfloor>;
          next_index = min (previous_index + 1) (length s - 1);
          gamma = virtual_index - real previous_index
      in s ! previous_index + gamma * (s ! next_index - s ! previous_index))"

definition np_percentile :: "real list \<Rightarrow> real \<Rightarrow> error + real" where
  "np_percentile a q =
     (if q < 0 \<or> 100 < q then Inl PercentileRangeError
      else if a = [] then Inl IndexError
      else Inr (linear_interp (sort a) (real (length a - 1) * (q / 100))))"

record confidence_interval =
  prediction :: "real option"
  lower_bound :: real
  upper_bound :: real
  standard_error :: "real option"
  confidence_level :: real

text \<open>
  The body of the loop \<^verbatim>\<open>for i in range(n_bootstrap)\<close>: \<open>Some\<close> of the prediction
  appended to \<^verbatim>\<open>bootstrap_predictions\<close>, or \<open>None\<close> when the team is in no row of the
  resample.
\<close>

definition bootstrap_iteration ::
    "sampler \<Rightarrow> regressor \<Rightarrow> rng \<Rightarrow> season_row list \<Rightarrow> season_row list \<Rightarrow> column list
      \<Rightarrow> int \<Rightarrow> nat \<Rightarrow> error + (real option \<times> rng)" where
  "bootstrap_iteration smp rf g historical_data team_data fs prediction_year i =
     (let bootstrap_sample = smp i historical_data
      in case rf_fit rf bootstrap_sample fs position of
           Inl e \<Rightarrow> Inl e
         | Inr rf_boot \<Rightarrow>
             (case team_data of
                [] \<Rightarrow> Inl IndexError
              | r0 # _ \<Rightarrow>
                  let team_bootstrap = filter (\<lambda>r. team r = team r0) bootstrap_sample
                  in if length team_bootstrap > 0
                     then
                       (case weighted_average g team_bootstrap fs prediction_year of
                          Inl e \<Rightarrow> Inl e
                        | Inr (tf, g') \<Rightarrow>
                            (case predict_adjusted rf_boot fs tf of
                               Inl e \<Rightarrow> Inl e
                             | Inr adjusted_prediction \<Rightarrow> Inr (Some adjusted_prediction, g')))
                     else Inr (None, g)))"

fun bootstrap_iterations ::
    "sampler \<Rightarrow> regressor \<Rightarrow> rng \<Rightarrow> season_row list \<Rightarrow> season_row list \<Rightarrow> column list
      \<Rightarrow> int \<Rightarrow> nat list \<Rightarrow> error + (real list \<times> rng)" where
  "bootstrap_iterations smp rf g historical_data team_data fs prediction_year [] = Inr ([], g)"
| "bootstrap_iterations smp rf g historical_data team_data fs prediction_year (i # rest) =
     (case bootstrap_iteration smp rf g historical_data team_data fs prediction_year i of
        Inl e \<Rightarrow> Inl e
      | Inr (p, g') \<Rightarrow>
          (case bootstrap_iterations smp rf g' historical_data team_data fs prediction_year rest of
             Inl e \<Rightarrow> Inl e
           | Inr (ps, g'') \<Rightarrow> Inr ((case p of None \<Rightarrow> ps | Some v \<Rightarrow> v # ps), g'')))"

text \<open>Lines 141--157: the statistics of the collected predictions.\<close>

definition bootstrap_statistics :: "real list \<Rightarrow> real \<Rightarrow> error + confidence_interval" where
  "bootstrap_statistics bootstrap_predictions cl =
     (let alpha = 1 - cl;
          lower_percentile = (alpha / 2) * 100;
          upper_percentile = (1 - alpha / 2) * 100
      in case np_percentile bootstrap_predictions lower_percentile of
           Inl e \<Rightarrow> Inl e
         | Inr lb \<Rightarrow>
             (case np_percentile bootstrap_predictions upper_percentile of
                Inl e \<Rightarrow> Inl e
              | Inr ub \<Rightarrow>
                  Inr \<lparr>prediction = np_mean bootstrap_predictions,
                       lower_bound = lb,
                       upper_bound = ub,
                       standard_error = np_std bootstrap_predictions,
                       confidence_level = cl\<rparr>))"

definition bootstrap_confidence_interval_recent_form ::
    "sampler \<Rightarrow> regressor \<Rightarrow> rng \<Rightarrow> season_row list \<Rightarrow> season_row list \<Rightarrow> column list
      \<Rightarrow> int \<Rightarrow> nat \<Rightarrow> real \<Rightarrow> error + (confidence_interval \<times> rng)" where
  "bootstrap_confidence_interval_recent_form smp rf g historical_data team_data fs
       prediction_year n_bootstrap cl =
     (case bootstrap_iterations smp rf g historical_data team_data fs prediction_year
             [0..<n_bootstrap] of
        Inl e \<Rightarrow> Inl e
      | Inr (bootstrap_predictions, g') \<Rightarrow>
          (case bootstrap_statistics bootstrap_predictions cl of
             Inl e \<Rightarrow> Inl e
           | Inr ci \<Rightarrow> Inr (ci, g')))"

section \<open>TemporalValidator: \<^verbatim>\<open>cross_validate_time_series\<close>\<close>

record cv_period =
  train_end :: int
  test_start :: int
  test_end :: int

definition cv_periods :: "cv_period list" where
  "cv_periods =
     [\<lparr>train_end = 2013, test_start = 2014, test_end = 2016\<rparr>,
      \<lparr>train_end = 2016, test_start = 2017, test_end = 2019\<rparr>,
      \<lparr>train_end = 2019, test_start = 2020, test_end = 2023\<rparr>]"

text \<open>\<^verbatim>\<open>Series.unique()\<close>: the distinct values in order of first appearance.\<close>

definition unique :: "'a list \<Rightarrow> 'a list" where
  "unique xs = rev (remdups (rev xs))"

text \<open>
  The loop \<^verbatim>\<open>for _, row in team_test_data.iterrows()\<close>; it returns the pairs
  (prediction, actual) it appends to \<^verbatim>\<open>fold_predictions\<close> and \<^verbatim>\<open>fold_actuals\<close>.
\<close>

fun cv_team_rows ::
    "(real list \<Rightarrow> real) \<Rightarrow> rng \<Rightarrow> season_row list \<Rightarrow> column list \<Rightarrow> (season_row \<Rightarrow> real)
      \<Rightarrow> string \<Rightarrow> season_row list \<Rightarrow> error + ((real \<times> real) list \<times> rng)" where
  "cv_team_rows rf_cv g train_data fs target t [] = Inr ([], g)"
| "cv_team_rows rf_cv g train_data fs target t (row # rest) =
     (let team_historical = filter (\<lambda>r. team r = t) train_data
      in if length team_historical = 0
         then cv_team_rows rf_cv g train_data fs target t rest
         else
           (case weighted_average g team_historical fs (season_end_year row) of
              Inl e \<Rightarrow> Inl e
            | Inr (tf, g') \<Rightarrow>
                (case predict_adjusted rf_cv fs tf of
                   Inl e \<Rightarrow> Inl e
                 | Inr adjusted_prediction \<Rightarrow>
                     (case cv_team_rows rf_cv g' train_data fs target t rest of
                        Inl e \<Rightarrow> Inl e
                      | Inr (ps, g'') \<Rightarrow> Inr ((adjusted_prediction, target row) # ps, g'')))))"

text \<open>The loop \<^verbatim>\<open>for team in test_teams\<close>.\<close>

fun cv_teams ::
    "(real list \<Rightarrow> real) \<Rightarrow> rng \<Rightarrow> season_row list \<Rightarrow> season_row list \<Rightarrow> column list
      \<Rightarrow> (season_row \<Rightarrow> real) \<Rightarrow> string list \<Rightarrow> error + ((real \<times> real) list \<times> rng)" where
  "cv_teams rf_cv g train_data test_data fs target [] = Inr ([], g)"
| "cv_teams rf_cv g train_data test_data fs target (t # rest) =
     (let team_test_data = filter (\<lambda>r. team r = t) test_data
      in case cv_team_rows rf_cv g train_data fs target t team_test_data of
           Inl e \<Rightarrow> Inl e
         | Inr (ps, g') \<Rightarrow>
             (case cv_teams rf_cv g' train_data test_data fs target rest of
                Inl e \<Rightarrow> Inl e
              | Inr (qs, g'') \<Rightarrow> Inr (ps @ qs, g'')))"

definition train_rows :: "cv_period \<Rightarrow> season_row list \<Rightarrow> season_row list" where
  "train_rows period data = filter (\<lambda>r. season_end_year r \<le> train_end period) data"

definition test_rows :: "cv_period \<Rightarrow> season_row list \<Rightarrow> season_row list" where
  "test_rows period data =
     filter (\<lambda>r. season_end_year r \<ge> test_start period \<and> season_end_year r \<le> test_end period) data"

text \<open>
  One pass of \<^verbatim>\<open>for period in cv_periods\<close> up to the fold's two lists: \<open>None\<close> when the
  fold is skipped by \<^verbatim>\<open>continue\<close>, else the pairs (prediction, actual).
\<close>

definition cv_fold_predictions ::
    "regressor \<Rightarrow> rng \<Rightarrow> season_row list \<Rightarrow> column list \<Rightarrow> (season_row \<Rightarrow> real) \<Rightarrow> cv_period
      \<Rightarrow> error + ((real \<times> real) list option \<times> rng)" where
  "cv_fold_predictions rf g data fs target period =
     (let train_data = train_rows period data;
          test_data = test_rows period data
      in if length train_data = 0 \<or> length test_data = 0 then Inr (None, g)
         else
           (case rf_fit rf train_data fs target of
              Inl e \<Rightarrow> Inl e
            | Inr rf_cv \<Rightarrow>
                let test_teams = unique (map team test_data)
                in (case cv_teams rf_cv g train_data test_data fs target test_teams of
                      Inl e \<Rightarrow> Inl e
                    | Inr (pairs, g') \<Rightarrow> Inr (Some pairs, g'))))"

text \<open>
  \<open>r2 actuals predictions\<close> is scikit-learn's \<^verbatim>\<open>r2_score\<close>, a parameter. The function
  returns the list \<^verbatim>\<open>cv_scores\<close>.
\<close>

fun cv_folds ::
    "regressor \<Rightarrow> (real list \<Rightarrow> real list \<Rightarrow> real) \<Rightarrow> rng \<Rightarrow> season_row list \<Rightarrow> column list
      \<Rightarrow> (season_row \<Rightarrow> real) \<Rightarrow> cv_period list \<Rightarrow> error + (real list \<times> rng)" where
  "cv_folds rf r2 g data fs target [] = Inr ([], g)"
| "cv_folds rf r2 g data fs target (period # rest) =
     (case cv_fold_predictions rf g data fs target period of
        Inl e \<Rightarrow> Inl e
      | Inr (fold_pairs, g') \<Rightarrow>
          (case cv_folds rf r2 g' data fs target rest of
             Inl e \<Rightarrow> Inl e
           | Inr (scores, g'') \<Rightarrow>
               Inr ((case fold_pairs of
                       None \<Rightarrow> scores
                     | Some pairs \<Rightarrow>
                         if length pairs > 0
                         then r2 (map snd pairs) (map fst pairs) # scores
                         else scores), g'')))"

definition cross_validate_time_series ::
    "regressor \<Rightarrow> (real list \<Rightarrow> real list \<Rightarrow> real) \<Rightarrow> rng \<Rightarrow> season_row list \<Rightarrow> column list
      \<Rightarrow> (season_row \<Rightarrow> real) \<Rightarrow> int \<Rightarrow> error + (real \<times> rng)" where
  "cross_validate_time_series rf r2 g data fs target prediction_year =
     (case cv_folds rf r2 g data fs target cv_periods of
        Inl e \<Rightarrow> Inl e
      | Inr (cv_scores, g') \<Rightarrow>
          Inr ((case np_mean cv_scores of None \<Rightarrow> 0 | Some m \<Rightarrow> m), g'))"

section \<open>RankingAssembler and \<^verbatim>\<open>compare_predictions_with_confidence\<close>\<close>

text \<open>
  Lines 312--317: \<^verbatim>\<open>list.sort\<close> is stable, as is \<open>sort_key\<close>; \<^verbatim>\<open>enumerate(_, start=1)\<close>
  then replaces each adjusted position by the rank.
\<close>

definition assign_ranks :: "(string \<times> real) list \<Rightarrow> (string \<times> nat) list" where
  "assign_ranks predictions =
     map (\<lambda>(rank, p). (fst p, rank)) (enumerate 1 (sort_key snd predictions))"

record team_interval =
  ci_team :: string
  ci :: confidence_interval
  interval_width :: real

text \<open>
  The loop \<^verbatim>\<open>for i, team in enumerate(teams, 1)\<close>, with the lists \<^verbatim>\<open>predictions\<close> and
  \<^verbatim>\<open>confidence_intervals\<close> it fills. \<open>rf_model\<close> is the global model after the refit of
  line 249. The list \<^verbatim>\<open>recent_form_details\<close> only feeds the console report and is left
  out.
\<close>

fun compare_loop ::
    "sampler \<Rightarrow> regressor \<Rightarrow> (real list \<Rightarrow> real) \<Rightarrow> rng \<Rightarrow> season_row list \<Rightarrow> int \<Rightarrow> real
      \<Rightarrow> string list \<Rightarrow> error + (((string \<times> real) list \<times> team_interval list) \<times> rng)" where
  "compare_loop smp rf rf_model g historical_data prediction_year cl [] = Inr (([], []), g)"
| "compare_loop smp rf rf_model g historical_data prediction_year cl (t # rest) =
     (let team_data = filter (\<lambda>r. team r = t) historical_data
      in if team_data = []
         then compare_loop smp rf rf_model g historical_data prediction_year cl rest
         else
           (case bootstrap_confidence_interval_recent_form smp rf g historical_data team_data
                   features prediction_year 100 cl of
              Inl e \<Rightarrow> Inl e
            | Inr (ci_results, g1) \<Rightarrow>
                (case weighted_average g1 team_data features prediction_year of
                   Inl e \<Rightarrow> Inl e
                 | Inr (tf, g2) \<Rightarrow>
                     (case predict_adjusted rf_model features tf of
                        Inl e \<Rightarrow> Inl e
                      | Inr adjusted_prediction \<Rightarrow>
                          (case compare_loop smp rf rf_model g2 historical_data prediction_year
                                  cl rest of
                             Inl e \<Rightarrow> Inl e
                           | Inr ((ps, ivs), g3) \<Rightarrow>
                               Inr (((t, adjusted_prediction) # ps,
                                     \<lparr>ci_team = t, ci = ci_results,
                                      interval_width =
                                        upper_bound ci_results - lower_bound ci_results\<rparr> # ivs),
                                    g3))))))"

record ranked_run =
  predictions :: "(string \<times> nat) list"
  confidence_intervals :: "team_interval list"

text \<open>
  Lines 238--317 of \<^verbatim>\<open>compare_predictions_with_confidence\<close>, with the global \<^verbatim>\<open>data\<close>
  as an argument. What follows line 317 (the merge with \<^verbatim>\<open>actual_standings\<close>, the CSV
  file and the printed report) is the report renderer and is not modelled.
\<close>

definition compare_predictions_with_confidence ::
    "sampler \<Rightarrow> regressor \<Rightarrow> rng \<Rightarrow> season_row list \<Rightarrow> string list \<Rightarrow> int \<Rightarrow> real
      \<Rightarrow> error + (ranked_run \<times> rng)" where
  "compare_predictions_with_confidence smp rf g data teams prediction_year cl =
     (let historical_data = filter (\<lambda>r. season_end_year r < prediction_year) data
      in if historical_data = [] then Inl (NoHistoricalData prediction_year)
         else
           (case rf_fit rf historical_data features position of
              Inl e \<Rightarrow> Inl e
            | Inr rf_model \<Rightarrow>
                (case compare_loop smp rf rf_model g historical_data prediction_year cl teams of
                   Inl e \<Rightarrow> Inl e
                 | Inr ((ps, ivs), g') \<Rightarrow>
                     Inr (\<lparr>predictions = assign_ranks ps, confidence_intervals = ivs\<rparr>, g'))))"

section \<open>The jitter condition\<close>

text \<open>
  The test of line 69 on a team's rows: at least two recent rows, all of one season.
\<close>

definition needs_jitter :: "season_row list \<Rightarrow> int \<Rightarrow> bool" where
  "needs_jitter team_data current_year =
     (let recent_data = recent_rows team_data current_year 3
      in 2 \<le> length recent_data \<and> length (remdups (map season_end_year recent_data)) < 2)"

section \<open>Concrete inputs\<close>

text \<open>Random generators: all coming draws zero; first draws 0, 0.01; first draws 0.01, 0.\<close>

definition zero_rng :: rng where
  "zero_rng = (\<lambda>i. 0)"

definition rng_up :: rng where
  "rng_up = (\<lambda>i. if i = 1 then 1 / 100 else 0)"

definition rng_down :: rng where
  "rng_down = (\<lambda>i. if i = 0 then 1 / 100 else 0)"

text \<open>Two seasons of team A, one of team B, and one season of team C listed twice.\<close>

definition row_a1 :: season_row where
  "row_a1 = \<lparr>team = ''A'', season_end_year = 2021, points = 50, gf = 40, ga = 45, gd = - 5,
             won = 13, drawn = 11, lost = 14, position = 12\<rparr>"

definition row_a2 :: season_row where
  "row_a2 = \<lparr>team = ''A'', season_end_year = 2022, points = 60, gf = 50, ga = 40, gd = 10,
             won = 17, drawn = 9, lost = 12, position = 8\<rparr>"

definition row_b1 :: season_row where
  "row_b1 = \<lparr>team = ''B'', season_end_year = 2022, points = 40, gf = 35, ga = 50, gd = - 15,
             won = 10, drawn = 10, lost = 18, position = 15\<rparr>"

definition row_c1 :: season_row where
  "row_c1 = \<lparr>team = ''C'', season_end_year = 2023, points = 50, gf = 40, ga = 45, gd = - 5,
             won = 13, drawn = 11, lost = 14, position = 10\<rparr>"

definition row_c2 :: season_row where
  "row_c2 = \<lparr>team = ''C'', season_end_year = 2023, points = 60, gf = 50, ga = 40, gd = 10,
             won = 17, drawn = 9, lost = 12, position = 10\<rparr>"

text \<open>
  Two training seasons of team T and two versions of its season 2014, which differ in
  every statistic.
\<close>

definition row_t1 :: season_row where
  "row_t1 = \<lparr>team = ''T'', season_end_year = 2012, points = 45, gf = 42, ga = 50, gd = - 8,
             won = 12, drawn = 9, lost = 17, position = 14\<rparr>"

definition row_t2 :: season_row where
  "row_t2 = \<lparr>team = ''T'', season_end_year = 2013, points = 55, gf = 50, ga = 44, gd = 6,
             won = 15, drawn = 10, lost = 13, position = 9\<rparr>"

definition row_u1 :: season_row where
  "row_u1 = \<lparr>team = ''T'', season_end_year = 2014, points = 70, gf = 65, ga = 35, gd = 30,
             won = 21, drawn = 7, lost = 10, position = 4\<rparr>"

definition row_u2 :: season_row where
  "row_u2 = \<lparr>team = ''T'', season_end_year = 2014, points = 30, gf = 28, ga = 70, gd = - 42,
             won = 7, drawn = 9, lost = 22, position = 19\<rparr>"

definition first_period :: cv_period where
  "first_period = \<lparr>train_end = 2013, test_start = 2014, test_end = 2016\<rparr>"

text \<open>
  A regressor that predicts the mean of its training targets. On a training set whose
  targets are all equal it agrees with the random forest, every tree of which then
  predicts that one value.
\<close>

definition mean_regressor :: regressor where
  "mean_regressor X y x = sum_list y / real (length y)"

text \<open>
  Three resamplings, each a possible draw with replacement of the size of the data:
  the data itself; the last row every time; the first row every time for the seeds
  below 4 and the last row every time from seed 4 on.
\<close>

definition same_sampler :: sampler where
  "same_sampler i d = d"

definition last_row_sampler :: sampler where
  "last_row_sampler i d = (case d of [] \<Rightarrow> [] | r # _ \<Rightarrow> replicate (length d) (last d))"

definition skewed_sampler :: sampler where
  "skewed_sampler i d =
     (case d of [] \<Rightarrow> [] | r # _ \<Rightarrow> replicate (length d) (if i < 4 then r else last d))"

section \<open>Properties of the exponential weights\<close>

lemma exp_nat_upper: "exp (real n) \<le> 3 ^ n"
proof -
  have "exp (real n) = exp 1 ^ n" using exp_of_nat_mult [of n 1] by simp
  also have "\<dots> \<le> 3 ^ n" by (rule power_mono [OF exp_le]) simp
  finally show ?thesis .
qed



lemma exp_635_upper: "exp 635 \<le> (2::real) ^ 1016"
proof -
  have "exp (real 635) \<le> (3::real) ^ 635" by (rule exp_nat_upper)
  also have "\<dots> = (3 ^ 5) ^ 127" by (simp only: power_mult [symmetric]) simp
  also have "\<dots> \<le> (2 ^ 8) ^ 127" by (rule power_mono) simp_all
  also have "\<dots> = 2 ^ 1016" by (simp only: power_mult [symmetric]) simp
  finally show ?thesis by simp
qed

lemma threshold_order:
  "underflow_threshold < min_normal" "min_normal \<le> 1 / 2 ^ 1016" "1 < overflow_threshold"
  "overflow_threshold \<le> 2 ^ 1125" "(1::real) / 2 ^ 1125 \<le> underflow_threshold"
  by (simp_all add: underflow_threshold_def min_normal_def overflow_threshold_def)



lemma np_exp_normal:
  "min_normal \<le> exp x \<Longrightarrow> exp x < overflow_threshold \<Longrightarrow> np_exp x = Some (exp x)"
  using threshold_order(1) by (simp add: np_exp_def)

lemma exp_normal_range:
  assumes "- 635 \<le> x" and "x \<le> 0"
  shows "min_normal \<le> exp x \<and> exp x < overflow_threshold"
proof -
  have "min_normal \<le> 1 / 2 ^ 1016" by (rule threshold_order)
  also have "\<dots> \<le> 1 / exp 635"
    using exp_635_upper by (intro divide_left_mono) simp_all
  also have "\<dots> = exp (- 635)" by (simp add: exp_minus divide_inverse)
  also have "\<dots> \<le> exp x" using assms(1) by simp
  finally have lo: "min_normal \<le> exp x" .
  have "exp x \<le> 1" using assms(2) by simp
  then have "exp x < overflow_threshold" using threshold_order(3) by linarith
  then show ?thesis using lo by simp
qed

lemma weight_is_normal_range: "0 \<le> d \<Longrightarrow> d \<le> 600 \<Longrightarrow> weight_is_normal d"
proof -
  assume d: "0 \<le> d" "d \<le> 600"
  have a: "- real_of_int d / 1.05 \<le> 0" using d(1) by simp
  have "real_of_int d \<le> 600" using d(2) by simp
  then have "real_of_int d / 1.05 \<le> 635" by simp
  then have b: "- 635 \<le> - real_of_int d / 1.05" by simp
  show ?thesis
    unfolding weight_is_normal_def by (rule exp_normal_range [OF b a])
qed

lemma year_weight_normal:
  "weight_is_normal d \<Longrightarrow> year_weight d = Some (exp (- real_of_int d / 1.05))"
  by (simp add: weight_is_normal_def year_weight_def np_exp_normal)

lemma row_weight_normal:
  "weight_is_normal (y - season_end_year r) \<Longrightarrow> row_weight y r = Some (real_weight y r)"
  by (simp add: row_weight_def real_weight_def year_weight_normal)

lemma real_weight_pos: "0 < real_weight y r"
  by (simp add: real_weight_def)

lemma those_row_weights:
  "\<forall>r\<in>set team_data. weight_is_normal (y - season_end_year r) \<Longrightarrow>
     those (map (row_weight y) team_data) = Some (map (real_weight y) team_data)"
  by (induction team_data) (simp_all add: row_weight_normal)

text \<open>Rows that are not later than the reference year never give the weight \<^verbatim>\<open>inf\<close>.\<close>

lemma np_exp_finite: "x \<le> 0 \<Longrightarrow> np_exp x \<noteq> None"
proof -
  assume "x \<le> 0"
  then have "exp x \<le> 1" by simp
  then have "exp x < overflow_threshold" using threshold_order(3) by linarith
  then show ?thesis by (simp add: np_exp_def)
qed

lemma those_row_weights_finite:
  "\<forall>r\<in>set team_data. season_end_year r \<le> y \<Longrightarrow>
     those (map (row_weight y) team_data) \<noteq> None"
proof (induction team_data)
  case Nil
  then show ?case by simp
next
  case (Cons r rs)
  have "- real_of_int (y - season_end_year r) / 1.05 \<le> 0" using Cons.prems by simp
  then have "row_weight y r \<noteq> None"
    unfolding row_weight_def year_weight_def by (rule np_exp_finite)
  then show ?case using Cons by (auto split: option.splits)
qed

lemma weighted_average_finite:
  assumes "\<forall>r\<in>set team_data. season_end_year r \<le> y"
  shows "weighted_average g team_data fs y \<noteq> Inl NonFiniteAverage"
proof -
  have w: "those (map (row_weight y) team_data) \<noteq> None"
    by (rule those_row_weights_finite [OF assms])
  have "weighted_avg_loop team_data (map (row_weight y) team_data) fs \<noteq> Inl NonFiniteAverage"
    using w by (induction fs) (auto simp: np_average_def Let_def split: sum.splits if_splits)
  then show ?thesis
    by (auto simp: weighted_average_def split: sum.splits prod.splits)
qed

section \<open>Properties of the ranking\<close>

lemma sorted_key_split:
  "sorted (map f xs) \<Longrightarrow>
     xs = filter (\<lambda>x. f x < k) xs @ filter (\<lambda>x. f x = k) xs @ filter (\<lambda>x. k < f x) xs"
  for f :: "'a \<Rightarrow> real"
proof (induction xs)
  case Nil
  then show ?case by simp
next
  case (Cons x xs)
  then have IH: "xs = filter (\<lambda>x. f x < k) xs @ filter (\<lambda>x. f x = k) xs @ filter (\<lambda>x. k < f x) xs"
    and le: "\<forall>y\<in>set xs. f x \<le> f y"
    by simp_all
  consider "f x < k" | "f x = k" | "k < f x" by linarith
  then show ?case
  proof cases
    case 1
    then show ?thesis using IH by simp
  next
    case 2
    then have "filter (\<lambda>x. f x < k) xs = []" using le by (auto simp: filter_empty_conv)
    then show ?thesis using 2 IH by simp
  next
    case 3
    then have "filter (\<lambda>x. f x < k) xs = []" "filter (\<lambda>x. f x = k) xs = []"
      using le by (auto simp: filter_empty_conv)
    then show ?thesis using 3 IH by simp
  qed
qed

lemma map_enumerate_snd: "map (\<lambda>x. f (snd x)) (enumerate n xs) = map f xs"
proof -
  have "map (\<lambda>x. f (snd x)) (enumerate n xs) = map f (map snd (enumerate n xs))"
    by (simp add: o_def del: map_snd_enumerate)
  then show ?thesis by simp
qed

lemma map_snd_assign_ranks: "map snd (assign_ranks ps) = [1..<Suc (length ps)]"
proof -
  have "map snd (assign_ranks ps) = map fst (enumerate 1 (sort_key snd ps))"
    by (simp add: assign_ranks_def case_prod_unfold o_def)
  then show ?thesis by simp
qed

text \<open>
  Claim C6. For a list of K adjusted positions the ranks handed out are exactly
  1, ..., K in this order, along the list sorted ascending by adjusted position; the
  entries tied at a value \<open>k\<close> form one block of the sorted list, in their input order,
  after every smaller and before every larger entry, so they get consecutive ranks; two
  teams tied get ranks 1 and 2 in input order.
\<close>

theorem assign_ranks_permutation_stable:
  "map snd (assign_ranks ps) = [1..<Suc (length ps)]
   \<and> map fst (assign_ranks ps) = map fst (sort_key snd ps)
   \<and> sorted (map snd (sort_key snd ps))
   \<and> sort_key snd ps =
       filter (\<lambda>p. snd p < k) (sort_key snd ps) @ filter (\<lambda>p. snd p = k) ps
         @ filter (\<lambda>p. k < snd p) (sort_key snd ps)
   \<and> assign_ranks [(a, v), (b, v)] = [(a, 1), (b, 2)]"
proof -
  have s: "sorted (map snd (sort_key snd ps))" by simp
  have "sort_key snd ps =
       filter (\<lambda>p. snd p < k) (sort_key snd ps) @ filter (\<lambda>p. snd p = k) (sort_key snd ps)
         @ filter (\<lambda>p. k < snd p) (sort_key snd ps)"
    by (rule sorted_key_split [OF s])
  then have split: "sort_key snd ps =
       filter (\<lambda>p. snd p < k) (sort_key snd ps) @ filter (\<lambda>p. snd p = k) ps
         @ filter (\<lambda>p. k < snd p) (sort_key snd ps)"
    by (simp only: sort_key_stable)
  have fst: "map fst (assign_ranks ps) = map fst (sort_key snd ps)"
    by (simp add: assign_ranks_def case_prod_unfold o_def map_enumerate_snd)
  have tie: "assign_ranks [(a, v), (b, v)] = [(a, 1), (b, 2)]"
    by (simp add: assign_ranks_def)
  show ?thesis using map_snd_assign_ranks s split fst tie by blast
qed

section \<open>Properties of the predictor\<close>

lemma weighted_avg_loop_Inr:
  "weighted_avg_loop td w fs = Inr avgs \<Longrightarrow>
     avgs = map (\<lambda>f. (f, case np_average (map (col f) td) w of Inl e \<Rightarrow> 0 | Inr v \<Rightarrow> v)) fs"
  by (induction fs arbitrary: avgs) (auto split: sum.splits)

lemma weighted_avg_loop_nonzero:
  "those w = Some ws \<Longrightarrow> sum_list ws \<noteq> 0 \<Longrightarrow>
     weighted_avg_loop td w fs =
       Inr (map (\<lambda>f. (f, sum_list (map2 (*) (map (col f) td) ws) / sum_list ws)) fs)"
  by (induction fs) (auto simp: np_average_def Let_def)

lemma map_of_tabulate: "f \<in> set fs \<Longrightarrow> map_of (map (\<lambda>f. (f, v f)) fs) f = Some (v f)"
  by (induction fs) auto

lemma select_values_tabulate:
  "set fs' \<subseteq> set fs \<Longrightarrow> select_values (map (\<lambda>f. (f, v f)) fs) fs' = Some (map v fs')"
  by (induction fs') (auto simp: map_of_tabulate)

lemma weighted_average_select:
  assumes "weighted_average g team_data fs current_year = Inr (tf, g')"
  shows "select_values (weighted_avg tf) fs = Some (map snd (weighted_avg tf))"
proof -
  let ?w = "map (row_weight current_year) team_data"
  let ?v = "\<lambda>f. case np_average (map (col f) team_data) ?w of Inl e \<Rightarrow> 0 | Inr v \<Rightarrow> v"
  from assms obtain avgs where l: "weighted_avg_loop team_data ?w fs = Inr avgs"
    and tf: "weighted_avg tf = avgs"
    by (auto simp: weighted_average_def Let_def split: sum.splits prod.splits)
  have a: "avgs = map (\<lambda>f. (f, ?v f)) fs" by (rule weighted_avg_loop_Inr [OF l])
  have "select_values (map (\<lambda>f. (f, ?v f)) fs) fs = Some (map ?v fs)"
    by (rule select_values_tabulate) simp
  then show ?thesis unfolding tf a by (simp add: o_def)
qed

lemma adjust_prediction_eq:
  "adjust_prediction p s = max 1 (min 20 (p - 0.05 * s))"
  by (simp add: adjust_prediction_def Let_def)

lemma adjust_prediction_bounds: "1 \<le> adjust_prediction p s \<and> adjust_prediction p s \<le> 20"
  by (simp add: adjust_prediction_def Let_def)

text \<open>
  Claim C3. For the feature vector that \<open>weighted_average\<close> returns and any model, the
  model is applied to the weighted averages of the base features alone (the entry
  \<open>recent_form_score\<close> is no part of its input: changing it leaves the input as it is),
  and the prediction is \<open>clamp (raw_position - 0.05 * recent_form_score) 1 20\<close>, a value
  within \<open>[1, 20]\<close>.
\<close>

theorem predict_adjusted_clamped:
  assumes "weighted_average g team_data fs current_year = Inr (tf, g')"
  shows "select_values (weighted_avg tf) fs = Some (map snd (weighted_avg tf))
     \<and> predict_adjusted model fs tf =
         Inr (max 1 (min 20 (model (map snd (weighted_avg tf)) - 0.05 * recent_form_score tf)))
     \<and> predict_adjusted model fs (tf\<lparr>recent_form_score := s\<rparr>) =
         Inr (max 1 (min 20 (model (map snd (weighted_avg tf)) - 0.05 * s)))
     \<and> 1 \<le> max 1 (min 20 (model (map snd (weighted_avg tf)) - 0.05 * recent_form_score tf))
     \<and> max 1 (min 20 (model (map snd (weighted_avg tf)) - 0.05 * recent_form_score tf)) \<le> 20"
  using weighted_average_select [OF assms]
  by (simp add: predict_adjusted_def adjust_prediction_eq)

lemma crfs_single: "calculate_recent_form_score g [r] y n = (0, g)"
  by (simp add: calculate_recent_form_score_def recent_rows_def Let_def)

lemma weighted_average_single:
  assumes "weight_is_normal (y - season_end_year r)"
  shows "weighted_average g [r] fs y =
     Inr (\<lparr>weighted_avg = map (\<lambda>f. (f, col f r)) fs, recent_form_score = 0\<rparr>, g)"
proof -
  have th: "those [row_weight y r] = Some [real_weight y r]"
    by (simp add: row_weight_normal [OF assms])
  have nz: "sum_list [real_weight y r] \<noteq> 0"
    using real_weight_pos [of y r] by simp
  have "weighted_avg_loop [r] [row_weight y r] fs = Inr (map (\<lambda>f. (f, col f r)) fs)"
    using nz by (simp add: weighted_avg_loop_nonzero [OF th nz])
  then show ?thesis
    by (simp add: weighted_average_def crfs_single)
qed

lemma weight_a1_2024: "weight_is_normal (2024 - season_end_year row_a1)"
  by (rule weight_is_normal_range) (simp_all add: row_a1_def)

theorem predict_adjusted_clamped_witness:
  "predict_adjusted (\<lambda>x. 25) features
      \<lparr>weighted_avg = map (\<lambda>f. (f, col f row_a1)) features, recent_form_score = 0\<rparr> = Inr 20"
  using predict_adjusted_clamped [of zero_rng "[row_a1]" features 2024
      "\<lparr>weighted_avg = map (\<lambda>f. (f, col f row_a1)) features, recent_form_score = 0\<rparr>" zero_rng "\<lambda>x. 25"]
  by (simp add: weighted_average_single [OF weight_a1_2024])

section \<open>Properties of the feature aggregation\<close>


lemma sum_real_weight_pos: "team_data \<noteq> [] \<Longrightarrow> 0 < sum_list (map (real_weight y) team_data)"
proof (induction team_data)
  case Nil
  then show ?case by simp
next
  case (Cons r rs)
  have "0 \<le> sum_list (map (real_weight y) rs)"
    by (rule sum_list_nonneg) (auto simp: less_imp_le [OF real_weight_pos])
  then show ?case using real_weight_pos [of y r] by simp
qed




text \<open>The weighted average of one column, as the program computes it on normal weights.\<close>

lemma weighted_average_Inr:
  assumes "team_data \<noteq> []"
    and "\<forall>r\<in>set team_data. weight_is_normal (y - season_end_year r)"
  shows "weighted_average g team_data fs y =
     Inr (\<lparr>weighted_avg =
             map (\<lambda>f. (f, sum_list (map (\<lambda>r. col f r * real_weight y r) team_data)
                            / sum_list (map (real_weight y) team_data))) fs,
           recent_form_score = fst (calculate_recent_form_score g team_data y 3)\<rparr>,
          snd (calculate_recent_form_score g team_data y 3))"
proof -
  have th: "those (map (row_weight y) team_data) = Some (map (real_weight y) team_data)"
    by (rule those_row_weights [OF assms(2)])
  have nz: "sum_list (map (real_weight y) team_data) \<noteq> 0"
    using sum_real_weight_pos [OF assms(1), of y] by simp
  have "weighted_avg_loop team_data (map (row_weight y) team_data) fs =
      Inr (map (\<lambda>f. (f, sum_list (map (\<lambda>r. col f r * real_weight y r) team_data)
                            / sum_list (map (real_weight y) team_data))) fs)"
    unfolding weighted_avg_loop_nonzero [OF th nz] map2_map_map ..
  then show ?thesis
    by (simp add: weighted_average_def split: prod.splits)
qed






section \<open>Properties of the trend estimator\<close>

lemma clamp_form_bounds: "- 3 \<le> clamp_form x \<and> clamp_form x \<le> 3"
  by (simp add: clamp_form_def)

lemma crfs_bounds:
  "- 3 \<le> fst (calculate_recent_form_score g team_data y n)
   \<and> fst (calculate_recent_form_score g team_data y n) \<le> 3"
  using clamp_form_bounds
  by (simp add: calculate_recent_form_score_def Let_def split: prod.splits option.splits)

text \<open>
  Claim C4. The score reads only the rows with
  \<open>season_end_year \<ge> reference_year - last_n_seasons\<close> (3 at every call); with fewer
  than two of them it is 0 and the random generator is untouched; otherwise, when the
  two line fits on the sorted recent rows return the slopes \<open>points_slope\<close> and
  \<open>position_slope\<close>, it is \<open>0.6 * (points_slope / 5) + 0.4 * (- position_slope / 2)\<close>
  clamped to \<open>[-3, 3]\<close>; and it lies in \<open>[-3, 3]\<close> in every case.
\<close>

theorem recent_form_score_clamped:
  "calculate_recent_form_score g team_data y n =
     calculate_recent_form_score g (recent_rows team_data y n) y n
   \<and> set (recent_rows team_data y n) = {r \<in> set team_data. season_end_year r \<ge> y - n}
   \<and> (length (recent_rows team_data y n) < 2 \<longrightarrow>
        calculate_recent_form_score g team_data y n = (0, g))
   \<and> (2 \<le> length (recent_rows team_data y n) \<longrightarrow>
        (\<forall>points_slope position_slope.
           polyfit_slope
             (fst (fit_years g (sort_key season_end_year (recent_rows team_data y n))))
             (map points (sort_key season_end_year (recent_rows team_data y n)))
             = Some points_slope
         \<and> polyfit_slope
             (fst (fit_years g (sort_key season_end_year (recent_rows team_data y n))))
             (map position (sort_key season_end_year (recent_rows team_data y n)))
             = Some position_slope
         \<longrightarrow> fst (calculate_recent_form_score g team_data y n) =
               max (- 3) (min 3 (0.6 * (points_slope / 5) + 0.4 * (- position_slope / 2)))))
   \<and> - 3 \<le> fst (calculate_recent_form_score g team_data y n)
   \<and> fst (calculate_recent_form_score g team_data y n) \<le> 3"
proof -
  have idem: "recent_rows (recent_rows team_data y n) y n = recent_rows team_data y n"
    by (simp add: recent_rows_def)
  have a: "calculate_recent_form_score g team_data y n =
     calculate_recent_form_score g (recent_rows team_data y n) y n"
    by (simp add: calculate_recent_form_score_def idem)
  have b: "set (recent_rows team_data y n) = {r \<in> set team_data. season_end_year r \<ge> y - n}"
    by (auto simp: recent_rows_def)
  have c: "length (recent_rows team_data y n) < 2 \<longrightarrow>
        calculate_recent_form_score g team_data y n = (0, g)"
    by (simp add: calculate_recent_form_score_def)
  have d: "2 \<le> length (recent_rows team_data y n) \<longrightarrow>
        (\<forall>points_slope position_slope.
           polyfit_slope
             (fst (fit_years g (sort_key season_end_year (recent_rows team_data y n))))
             (map points (sort_key season_end_year (recent_rows team_data y n)))
             = Some points_slope
         \<and> polyfit_slope
             (fst (fit_years g (sort_key season_end_year (recent_rows team_data y n))))
             (map position (sort_key season_end_year (recent_rows team_data y n)))
             = Some position_slope
         \<longrightarrow> fst (calculate_recent_form_score g team_data y n) =
               max (- 3) (min 3 (0.6 * (points_slope / 5) + 0.4 * (- position_slope / 2))))"
    by (auto simp: calculate_recent_form_score_def Let_def clamp_form_def
        split: prod.splits)
  show ?thesis using a b c d crfs_bounds by blast
qed

lemma fit_years_a12:
  "fit_years g [row_a1, row_a2] = ([0, 1], g)"
  by (simp add: fit_years_def row_a1_def row_a2_def Let_def)

lemma sorted_a12: "sort_key season_end_year [row_a1, row_a2] = [row_a1, row_a2]"
  by (simp add: row_a1_def row_a2_def)

lemma recent_a12: "recent_rows [row_a1, row_a2] 2023 3 = [row_a1, row_a2]"
  by (simp add: recent_rows_def row_a1_def row_a2_def)

lemma polyfit_points_a12: "polyfit_slope [0, 1] (map points [row_a1, row_a2]) = Some 10"
  by (simp add: polyfit_slope_def row_a1_def row_a2_def Let_def)

lemma polyfit_position_a12: "polyfit_slope [0, 1] (map position [row_a1, row_a2]) = Some (- 4)"
  by (simp add: polyfit_slope_def row_a1_def row_a2_def Let_def)

theorem recent_form_score_clamped_witness:
  "fst (calculate_recent_form_score zero_rng [row_a1, row_a2] 2023 3) = 2
   \<and> calculate_recent_form_score zero_rng [row_a1] 2023 3 = (0, zero_rng)"
proof -
  note two = recent_form_score_clamped [of zero_rng "[row_a1, row_a2]" 2023 3]
  note one = recent_form_score_clamped [of zero_rng "[row_a1]" 2023 3]
  have len: "2 \<le> length (recent_rows [row_a1, row_a2] 2023 3)"
    by (simp only: recent_a12) simp
  have p: "polyfit_slope
      (fst (fit_years zero_rng (sort_key season_end_year (recent_rows [row_a1, row_a2] 2023 3))))
      (map points (sort_key season_end_year (recent_rows [row_a1, row_a2] 2023 3))) = Some 10"
    by (simp only: recent_a12 sorted_a12 fit_years_a12 fst_conv polyfit_points_a12)
  have q: "polyfit_slope
      (fst (fit_years zero_rng (sort_key season_end_year (recent_rows [row_a1, row_a2] 2023 3))))
      (map position (sort_key season_end_year (recent_rows [row_a1, row_a2] 2023 3))) = Some (- 4)"
    by (simp only: recent_a12 sorted_a12 fit_years_a12 fst_conv polyfit_position_a12)
  have "fst (calculate_recent_form_score zero_rng [row_a1, row_a2] 2023 3) =
      max (- 3) (min 3 (0.6 * (10 / 5) + 0.4 * (- (- 4) / 2)))"
    using two len p q by blast
  then have a: "fst (calculate_recent_form_score zero_rng [row_a1, row_a2] 2023 3) = 2"
    by simp
  have "length (recent_rows [row_a1] 2023 3) < 2"
    by (simp add: recent_rows_def)
  then have b: "calculate_recent_form_score zero_rng [row_a1] 2023 3 = (0, zero_rng)"
    using one by blast
  show ?thesis using a b by simp
qed

section \<open>Properties of cross-validation and of the prediction run\<close>

text \<open>
  Claim C10. The cross-validation score does not depend on \<open>prediction_year\<close>: the
  argument is never read, and the three folds end their training windows in 2013, 2016
  and 2019 whatever its value.
\<close>

theorem cross_validate_ignores_prediction_year:
  "cross_validate_time_series rf r2 g data fs target y1 =
     cross_validate_time_series rf r2 g data fs target y2
   \<and> map train_end cv_periods = [2013, 2016, 2019]
   \<and> map test_start cv_periods = [2014, 2017, 2020]
   \<and> map test_end cv_periods = [2016, 2019, 2023]"
  by (simp add: cross_validate_time_series_def cv_periods_def)

lemma weighted_average_error:
  "weighted_average g td fs y = Inl e \<Longrightarrow> e = ZeroDivisionError \<or> e = NonFiniteAverage"
proof -
  have "weighted_avg_loop td w fs = Inl e \<Longrightarrow> e = ZeroDivisionError \<or> e = NonFiniteAverage"
    for w
    by (induction fs)
       (auto simp: np_average_def Let_def split: if_splits sum.splits option.splits)
  then show "weighted_average g td fs y = Inl e \<Longrightarrow>
      e = ZeroDivisionError \<or> e = NonFiniteAverage"
    by (auto simp: weighted_average_def Let_def split: sum.splits prod.splits)
qed

lemma predict_adjusted_error: "predict_adjusted m fs tf = Inl e \<Longrightarrow> e = KeyError"
  by (auto simp: predict_adjusted_def Let_def split: option.splits)

lemma rf_fit_error: "rf_fit rf train fs target = Inl e \<Longrightarrow> e = EmptyFitError"
  by (auto simp: rf_fit_def split: if_splits)

lemma np_percentile_error:
  "np_percentile a q = Inl e \<Longrightarrow> e = PercentileRangeError \<or> e = IndexError"
  by (auto simp: np_percentile_def split: if_splits)

lemma bootstrap_statistics_error:
  "bootstrap_statistics ps cl = Inl e \<Longrightarrow> e = PercentileRangeError \<or> e = IndexError"
  by (auto simp: bootstrap_statistics_def Let_def split: sum.splits dest: np_percentile_error)

lemma bootstrap_iteration_error:
  "bootstrap_iteration smp rf g hist td fs y i = Inl e \<Longrightarrow>
     e \<in> {EmptyFitError, IndexError, ZeroDivisionError, KeyError, NonFiniteAverage}"
  by (auto simp: bootstrap_iteration_def Let_def
      split: sum.splits list.splits if_splits prod.splits
      dest: rf_fit_error weighted_average_error predict_adjusted_error)

lemma bootstrap_iterations_error:
  "bootstrap_iterations smp rf g hist td fs y seeds = Inl e \<Longrightarrow>
     e \<in> {EmptyFitError, IndexError, ZeroDivisionError, KeyError, NonFiniteAverage}"
proof (induction seeds arbitrary: g)
  case Nil
  then show ?case by simp
next
  case (Cons i seeds)
  show ?case
  proof (cases "bootstrap_iteration smp rf g hist td fs y i")
    case (Inl e')
    then show ?thesis using Cons.prems bootstrap_iteration_error [of smp rf g hist td fs y i e']
      by simp
  next
    case (Inr pg)
    then show ?thesis using Cons.prems Cons.IH [of "snd pg"]
      by (cases pg) (auto split: sum.splits)
  qed
qed

lemma bootstrap_ci_error:
  "bootstrap_confidence_interval_recent_form smp rf g hist td fs y n cl = Inl e \<Longrightarrow>
     e \<in> {EmptyFitError, IndexError, ZeroDivisionError, KeyError, NonFiniteAverage,
          PercentileRangeError}"
  using bootstrap_iterations_error [of smp rf g hist td fs y "[0..<n]" e]
    bootstrap_statistics_error [of _ cl e]
  by (auto simp: bootstrap_confidence_interval_recent_form_def split: sum.splits prod.splits)

lemma compare_loop_error:
  "compare_loop smp rf m g hist y cl teams = Inl e \<Longrightarrow>
     e \<in> {EmptyFitError, IndexError, ZeroDivisionError, KeyError, NonFiniteAverage,
          PercentileRangeError}"
proof (induction teams arbitrary: g)
  case Nil
  then show ?case by simp
next
  case (Cons t teams)
  let ?td = "filter (\<lambda>r. team r = t) hist"
  show ?case
  proof (cases "?td = []")
    case True
    then show ?thesis using Cons by simp
  next
    case False
    show ?thesis
    proof (cases "bootstrap_confidence_interval_recent_form smp rf g hist ?td features y 100 cl")
      case (Inl e')
      then show ?thesis
        using Cons.prems False bootstrap_ci_error [of smp rf g hist ?td features y 100 cl e']
        by simp
    next
      case (Inr cg)
      obtain c g1 where cg: "cg = (c, g1)" by (cases cg)
      show ?thesis
      proof (cases "weighted_average g1 ?td features y")
        case (Inl e')
        then show ?thesis
          using Cons.prems False Inr cg weighted_average_error [of g1 ?td features y e']
          by auto
      next
        case wa: (Inr tg)
        obtain tf g2 where tg: "tg = (tf, g2)" by (cases tg)
        show ?thesis
        proof (cases "predict_adjusted m features tf")
          case (Inl e')
          then show ?thesis
            using Cons.prems False Inr cg wa tg predict_adjusted_error [of m features tf e']
            by simp
        next
          case pa: (Inr p)
          show ?thesis
            using Cons.prems False Inr cg wa tg pa Cons.IH [of g2]
            by (auto split: sum.splits)
        qed
      qed
    qed
  qed
qed

text \<open>
  Claim C8. When no row of the data has \<open>season_end_year < prediction_year\<close> the run
  fails with the \<^verbatim>\<open>ValueError\<close> "No historical data available before
  prediction_year" (the spec's \<open>EmptyTrainingSet\<close>) and returns no prediction; when
  some row has, the run goes on to the model fit and the loop over the teams and never
  fails with that error.
\<close>

theorem compare_predictions_empty_training_set:
  "(filter (\<lambda>r. season_end_year r < y) data = [] \<longrightarrow>
      compare_predictions_with_confidence smp rf g data teams y cl = Inl (NoHistoricalData y))
   \<and> (filter (\<lambda>r. season_end_year r < y) data \<noteq> [] \<longrightarrow>
      (\<forall>y'. compare_predictions_with_confidence smp rf g data teams y cl
              \<noteq> Inl (NoHistoricalData y'))
      \<and> compare_predictions_with_confidence smp rf g data teams y cl =
          (case rf_fit rf (filter (\<lambda>r. season_end_year r < y) data) features position of
             Inl e \<Rightarrow> Inl e
           | Inr rf_model \<Rightarrow>
               (case compare_loop smp rf rf_model g (filter (\<lambda>r. season_end_year r < y) data)
                       y cl teams of
                  Inl e \<Rightarrow> Inl e
                | Inr ((ps, ivs), g') \<Rightarrow>
                    Inr (\<lparr>predictions = assign_ranks ps, confidence_intervals = ivs\<rparr>, g'))))"
proof -
  let ?h = "filter (\<lambda>r. season_end_year r < y) data"
  have a: "?h = [] \<longrightarrow>
      compare_predictions_with_confidence smp rf g data teams y cl = Inl (NoHistoricalData y)"
    by (simp add: compare_predictions_with_confidence_def)
  have c: "?h \<noteq> [] \<longrightarrow> compare_predictions_with_confidence smp rf g data teams y cl =
          (case rf_fit rf ?h features position of
             Inl e \<Rightarrow> Inl e
           | Inr rf_model \<Rightarrow>
               (case compare_loop smp rf rf_model g ?h y cl teams of
                  Inl e \<Rightarrow> Inl e
                | Inr ((ps, ivs), g') \<Rightarrow>
                    Inr (\<lparr>predictions = assign_ranks ps, confidence_intervals = ivs\<rparr>, g')))"
    by (simp add: compare_predictions_with_confidence_def Let_def)
  have b: "compare_predictions_with_confidence smp rf g data teams y cl
              \<noteq> Inl (NoHistoricalData y')" if ne: "?h \<noteq> []" for y'
  proof
    assume f: "compare_predictions_with_confidence smp rf g data teams y cl
              = Inl (NoHistoricalData y')"
    show False
    proof (cases "rf_fit rf ?h features position")
      case (Inl e)
      then show False using f ne rf_fit_error [of rf ?h features position e]
        by (simp add: compare_predictions_with_confidence_def)
    next
      case (Inr m)
      then have "compare_loop smp rf m g ?h y cl teams = Inl (NoHistoricalData y')"
        using f ne
        by (auto simp: compare_predictions_with_confidence_def split: sum.splits prod.splits)
      then show False using compare_loop_error by fastforce
    qed
  qed
  show ?thesis using a b c by blast
qed

theorem compare_predictions_empty_training_set_witness:
  "compare_predictions_with_confidence same_sampler mean_regressor zero_rng [row_a1, row_a2]
      [''A''] 2021 (95 / 100) = Inl (NoHistoricalData 2021)
   \<and> compare_predictions_with_confidence same_sampler mean_regressor zero_rng [row_a1, row_a2]
      [''A''] 2024 (95 / 100) \<noteq> Inl (NoHistoricalData 2024)"
proof -
  have e: "filter (\<lambda>r. season_end_year r < 2021) [row_a1, row_a2] = []"
    by (simp add: row_a1_def row_a2_def)
  have n: "filter (\<lambda>r. season_end_year r < 2024) [row_a1, row_a2] \<noteq> []"
    by (simp add: row_a1_def row_a2_def)
  show ?thesis
    using e n compare_predictions_empty_training_set
      [of 2021 "[row_a1, row_a2]" same_sampler mean_regressor zero_rng "[''A'']" "95 / 100"]
    compare_predictions_empty_training_set
      [of 2024 "[row_a1, row_a2]" same_sampler mean_regressor zero_rng "[''A'']" "95 / 100"]
    by blast
qed

section \<open>Properties of the bootstrap: the empty case\<close>

lemma bootstrap_iteration_skip:
  assumes "fs \<noteq> []" and "team_data \<noteq> []" and "smp i hist \<noteq> []"
    and "\<forall>r\<in>set (smp i hist). team r \<noteq> team (hd team_data)"
  shows "bootstrap_iteration smp rf g hist team_data fs y i = Inr (None, g)"
proof -
  obtain r0 rest where td: "team_data = r0 # rest" using assms(2) by (cases team_data) auto
  have "filter (\<lambda>r. team r = team r0) (smp i hist) = []"
    using assms(4) td by (simp add: filter_empty_conv)
  then show ?thesis
    using assms(1,3) td by (simp add: bootstrap_iteration_def rf_fit_def)
qed

lemma bootstrap_iterations_skip:
  assumes "fs \<noteq> []" and "team_data \<noteq> []"
    and "\<forall>i\<in>set seeds. smp i hist \<noteq> []
            \<and> (\<forall>r\<in>set (smp i hist). team r \<noteq> team (hd team_data))"
  shows "bootstrap_iterations smp rf g hist team_data fs y seeds = Inr ([], g)"
  using assms(3)
proof (induction seeds)
  case Nil
  then show ?case by simp
next
  case (Cons i seeds)
  have "bootstrap_iteration smp rf g hist team_data fs y i = Inr (None, g)"
    using Cons.prems by (intro bootstrap_iteration_skip assms(1,2)) simp_all
  then show ?case using Cons by simp
qed

lemma bootstrap_statistics_empty:
  "bootstrap_statistics [] cl = Inl (if cl < - 1 \<or> 1 < cl then PercentileRangeError else IndexError)"
  by (simp add: bootstrap_statistics_def np_percentile_def Let_def)

lemma bootstrap_all_skipped_result:
  assumes "n = 0 \<or> (fs \<noteq> [] \<and> team_data \<noteq> []
            \<and> (\<forall>i<n. smp i hist \<noteq> []
                  \<and> (\<forall>r\<in>set (smp i hist). team r \<noteq> team (hd team_data))))"
  shows "bootstrap_iterations smp rf g hist team_data fs y [0..<n] = Inr ([], g)
     \<and> bootstrap_confidence_interval_recent_form smp rf g hist team_data fs y n cl =
         Inl (if cl < - 1 \<or> 1 < cl then PercentileRangeError else IndexError)"
proof -
  have it: "bootstrap_iterations smp rf g hist team_data fs y [0..<n] = Inr ([], g)"
  proof (cases "n = 0")
    case True
    then show ?thesis by simp
  next
    case False
    then show ?thesis using assms by (intro bootstrap_iterations_skip) simp_all
  qed
  then show ?thesis
    by (simp add: bootstrap_confidence_interval_recent_form_def bootstrap_statistics_empty)
qed

lemma last_row_sampler_ab: "last_row_sampler i [row_a1, row_b1] = [row_b1, row_b1]"
  by (simp add: last_row_sampler_def)

lemma team_ab: "team row_b1 \<noteq> team (hd [row_a1, row_a2])"
  by (simp add: row_a1_def row_b1_def)

text \<open>
  Claim C2 fails on the code: with \<open>n_bootstrap = 0\<close>, and with three resamples none of
  which holds a row of the team, the estimator does not fail with
  \<open>InsufficientBootstrapSamples\<close>; it goes on to the statistics of the empty list and
  ends in the \<^verbatim>\<open>IndexError\<close> of \<^verbatim>\<open>np.percentile\<close>.
\<close>

theorem bootstrap_insufficient_samples_counterexample:
  "bootstrap_confidence_interval_recent_form same_sampler mean_regressor zero_rng
      [row_a1, row_b1] [row_a1, row_a2] features 2024 0 (95 / 100) = Inl IndexError
   \<and> bootstrap_confidence_interval_recent_form same_sampler mean_regressor zero_rng
      [row_a1, row_b1] [row_a1, row_a2] features 2024 0 (95 / 100)
        \<noteq> Inl InsufficientBootstrapSamples
   \<and> bootstrap_confidence_interval_recent_form last_row_sampler mean_regressor zero_rng
      [row_a1, row_b1] [row_a1, row_a2] features 2024 3 (95 / 100) = Inl IndexError
   \<and> bootstrap_confidence_interval_recent_form last_row_sampler mean_regressor zero_rng
      [row_a1, row_b1] [row_a1, row_a2] features 2024 3 (95 / 100)
        \<noteq> Inl InsufficientBootstrapSamples"
proof -
  have a: "bootstrap_confidence_interval_recent_form same_sampler mean_regressor zero_rng
      [row_a1, row_b1] [row_a1, row_a2] features 2024 0 (95 / 100) = Inl IndexError"
    using bootstrap_all_skipped_result [of 0 features "[row_a1, row_a2]" same_sampler
        "[row_a1, row_b1]" mean_regressor zero_rng 2024 "95 / 100"]
    by simp
  have "bootstrap_confidence_interval_recent_form last_row_sampler mean_regressor zero_rng
      [row_a1, row_b1] [row_a1, row_a2] features 2024 3 (95 / 100) =
         Inl (if (95 / 100 :: real) < - 1 \<or> 1 < (95 / 100 :: real)
              then PercentileRangeError else IndexError)"
    using team_ab
    by (intro bootstrap_all_skipped_result [THEN conjunct2])
       (simp add: last_row_sampler_ab features_def)
  then have b: "bootstrap_confidence_interval_recent_form last_row_sampler mean_regressor
      zero_rng [row_a1, row_b1] [row_a1, row_a2] features 2024 3 (95 / 100) = Inl IndexError"
    by simp
  show ?thesis using a b by simp
qed

text \<open>
  Claim C2 as amended. When every iteration is skipped (\<open>n_bootstrap = 0\<close>, or no
  resample holds a row of the team) the list of predictions is empty and the estimator
  fails with the \<^verbatim>\<open>IndexError\<close> that \<^verbatim>\<open>np.percentile\<close> raises on it (with the
  range error of \<^verbatim>\<open>np.percentile\<close> when the confidence level is outside \<open>[-1, 1]\<close>);
  it never fails with \<open>InsufficientBootstrapSamples\<close>.
\<close>

theorem bootstrap_all_skipped:
  assumes "n = 0 \<or> (fs \<noteq> [] \<and> team_data \<noteq> []
            \<and> (\<forall>i<n. smp i hist \<noteq> []
                  \<and> (\<forall>r\<in>set (smp i hist). team r \<noteq> team (hd team_data))))"
  shows "bootstrap_iterations smp rf g hist team_data fs y [0..<n] = Inr ([], g)
     \<and> bootstrap_confidence_interval_recent_form smp rf g hist team_data fs y n cl =
         Inl (if cl < - 1 \<or> 1 < cl then PercentileRangeError else IndexError)
     \<and> bootstrap_confidence_interval_recent_form smp rf g hist team_data fs y n cl
         \<noteq> Inl InsufficientBootstrapSamples"
  using assms bootstrap_all_skipped_result [of n fs team_data smp hist rf g y cl] by simp

theorem bootstrap_all_skipped_witness:
  "bootstrap_iterations last_row_sampler mean_regressor zero_rng [row_a1, row_b1]
      [row_a1, row_a2] features 2024 [0..<3] = Inr ([], zero_rng)
   \<and> bootstrap_confidence_interval_recent_form last_row_sampler mean_regressor zero_rng
      [row_a1, row_b1] [row_a1, row_a2] features 2024 3 (95 / 100) = Inl IndexError
   \<and> bootstrap_confidence_interval_recent_form last_row_sampler mean_regressor zero_rng
      [row_a1, row_b1] [row_a1, row_a2] features 2024 0 (95 / 100) = Inl IndexError"
proof -
  have h: "(3::nat) = 0 \<or> (features \<noteq> [] \<and> [row_a1, row_a2] \<noteq> []
            \<and> (\<forall>i<3. last_row_sampler i [row_a1, row_b1] \<noteq> []
                  \<and> (\<forall>r\<in>set (last_row_sampler i [row_a1, row_b1]).
                        team r \<noteq> team (hd [row_a1, row_a2]))))"
    using team_ab by (simp add: last_row_sampler_ab features_def)
  show ?thesis
    using h bootstrap_all_skipped [of 3 features "[row_a1, row_a2]" last_row_sampler
        "[row_a1, row_b1]" mean_regressor zero_rng 2024 "95 / 100"]
      bootstrap_all_skipped [of 0 features "[row_a1, row_a2]" last_row_sampler
        "[row_a1, row_b1]" mean_regressor zero_rng 2024 "95 / 100"]
    by simp
qed

section \<open>Properties of the bootstrap statistics\<close>

lemma linear_interp_between:
  assumes "sorted s" and "s \<noteq> []" and "0 \<le> h" and "h \<le> real (length s - 1)"
  shows "s ! nat \<lfloor>h\<rfloor> \<le> linear_interp s h
     \<and> linear_interp s h \<le> s ! min (nat \<lfloor>h\<rfloor> + 1) (length s - 1)"
proof -
  let ?i = "nat \<lfloor>h\<rfloor>"
  let ?j = "min (?i + 1) (length s - 1)"
  have "\<lfloor>h\<rfloor> \<le> int (length s - 1)" using assms(4) by (simp add: floor_le_iff)
  then have i: "?i \<le> length s - 1" by simp
  have "0 < length s" using assms(2) by simp
  then have j: "?j < length s" by linarith
  have ij: "?i \<le> ?j" using i by simp
  have d: "0 \<le> s ! ?j - s ! ?i"
    using sorted_nth_mono [OF assms(1) ij j] by simp
  have ri: "real ?i = of_int \<lfloor>h\<rfloor>" using assms(3) by simp
  have g0: "0 \<le> h - real ?i" unfolding ri by simp
  have g1: "h - real ?i \<le> 1" unfolding ri by linarith
  have "(h - real ?i) * (s ! ?j - s ! ?i) \<le> 1 * (s ! ?j - s ! ?i)"
    by (rule mult_right_mono [OF g1 d])
  moreover have "0 \<le> (h - real ?i) * (s ! ?j - s ! ?i)"
    using g0 d by simp
  ultimately show ?thesis by (simp add: linear_interp_def Let_def)
qed

lemma linear_interp_mono:
  assumes "sorted s" and "s \<noteq> []" and "0 \<le> h1" and "h1 \<le> h2"
    and "h2 \<le> real (length s - 1)"
  shows "linear_interp s h1 \<le> linear_interp s h2"
proof (cases "\<lfloor>h1\<rfloor> = \<lfloor>h2\<rfloor>")
  case True
  let ?i = "nat \<lfloor>h1\<rfloor>"
  let ?j = "min (?i + 1) (length s - 1)"
  have "\<lfloor>h1\<rfloor> \<le> int (length s - 1)" using assms(4,5) by (simp add: floor_le_iff)
  then have i: "?i \<le> length s - 1" by simp
  have "0 < length s" using assms(2) by simp
  then have j: "?j < length s" by linarith
  have ij: "?i \<le> ?j" using i by simp
  have d: "0 \<le> s ! ?j - s ! ?i"
    using sorted_nth_mono [OF assms(1) ij j] by simp
  have "(h1 - real ?i) * (s ! ?j - s ! ?i) \<le> (h2 - real ?i) * (s ! ?j - s ! ?i)"
    using assms(4) d by (intro mult_right_mono) simp_all
  then show ?thesis using True by (simp add: linear_interp_def Let_def)
next
  case False
  have h2: "0 \<le> h2" using assms(3,4) by simp
  have h1: "h1 \<le> real (length s - 1)" using assms(4,5) by simp
  have lt: "\<lfloor>h1\<rfloor> < \<lfloor>h2\<rfloor>"
    using False floor_mono [OF assms(4)] by simp
  have "\<lfloor>h2\<rfloor> \<le> int (length s - 1)" using assms(5) by (simp add: floor_le_iff)
  then have i2: "nat \<lfloor>h2\<rfloor> \<le> length s - 1" by simp
  have i2': "nat \<lfloor>h2\<rfloor> < length s" using i2 assms(2) by (cases s) simp_all
  have "0 \<le> \<lfloor>h1\<rfloor>" using assms(3) by simp
  then have step: "nat \<lfloor>h1\<rfloor> + 1 \<le> nat \<lfloor>h2\<rfloor>" using lt by linarith
  then have m: "min (nat \<lfloor>h1\<rfloor> + 1) (length s - 1) \<le> nat \<lfloor>h2\<rfloor>" by simp
  have "linear_interp s h1 \<le> s ! min (nat \<lfloor>h1\<rfloor> + 1) (length s - 1)"
    using linear_interp_between [OF assms(1,2,3) h1] by simp
  also have "\<dots> \<le> s ! nat \<lfloor>h2\<rfloor>"
    by (rule sorted_nth_mono [OF assms(1) m i2'])
  also have "\<dots> \<le> linear_interp s h2"
    using linear_interp_between [OF assms(1,2) h2 assms(5)] by simp
  finally show ?thesis .
qed

lemma linear_interp_in_range:
  assumes "a \<noteq> []" and "0 \<le> h" and "h \<le> real (length a - 1)"
  shows "Min (set a) \<le> linear_interp (sort a) h \<and> linear_interp (sort a) h \<le> Max (set a)"
proof -
  let ?s = "sort a"
  have ne: "?s \<noteq> []" using assms(1) by (metis length_0_conv length_sort)
  have s: "sorted ?s" "?s \<noteq> []" "length ?s = length a" using ne by simp_all
  have h': "h \<le> real (length ?s - 1)" using assms(3) by simp
  have "\<lfloor>h\<rfloor> \<le> int (length a - 1)" using assms(3) by (simp add: floor_le_iff)
  then have "nat \<lfloor>h\<rfloor> \<le> length a - 1" by simp
  then have i: "nat \<lfloor>h\<rfloor> < length ?s" using assms(1) by (cases a) simp_all
  have "0 < length ?s" using assms(1) by simp
  then have j: "min (nat \<lfloor>h\<rfloor> + 1) (length ?s - 1) < length ?s"
    by linarith
  have "?s ! nat \<lfloor>h\<rfloor> \<in> set a" using nth_mem [OF i] by simp
  then have lo: "Min (set a) \<le> ?s ! nat \<lfloor>h\<rfloor>" by simp
  have "?s ! min (nat \<lfloor>h\<rfloor> + 1) (length ?s - 1) \<in> set a" using nth_mem [OF j] by simp
  then have hi: "?s ! min (nat \<lfloor>h\<rfloor> + 1) (length ?s - 1) \<le> Max (set a)" by simp
  show ?thesis
    using linear_interp_between [OF s(1,2) assms(2) h'] lo hi by linarith
qed

lemma sum_list_lower: "\<forall>x\<in>set xs. lo \<le> x \<Longrightarrow> real (length xs) * lo \<le> sum_list xs"
  by (induction xs) (auto simp: distrib_right)

lemma sum_list_upper: "\<forall>x\<in>set xs. x \<le> hi \<Longrightarrow> sum_list xs \<le> real (length xs) * hi"
  by (induction xs) (auto simp: distrib_right)

lemma mean_in_range:
  assumes "xs \<noteq> []"
  shows "Min (set xs) \<le> sum_list xs / real (length xs)
     \<and> sum_list xs / real (length xs) \<le> Max (set xs)"
proof -
  have n: "0 < real (length xs)" using assms by simp
  have "real (length xs) * Min (set xs) \<le> sum_list xs"
    by (rule sum_list_lower) simp
  moreover have "sum_list xs \<le> real (length xs) * Max (set xs)"
    by (rule sum_list_upper) simp
  ultimately show ?thesis using n
    by (simp add: pos_le_divide_eq pos_divide_le_eq mult.commute)
qed

section \<open>Properties of the confidence interval\<close>

lemma np_percentile_Inr:
  "a \<noteq> [] \<Longrightarrow> 0 \<le> q \<Longrightarrow> q \<le> 100 \<Longrightarrow>
     np_percentile a q = Inr (linear_interp (sort a) (real (length a - 1) * (q / 100)))"
  by (simp add: np_percentile_def)

lemma bootstrap_statistics_ordered:
  assumes "ps \<noteq> []" and "0 \<le> cl" and "cl \<le> 1"
  shows "\<exists>ci. bootstrap_statistics ps cl = Inr ci
     \<and> prediction ci = Some (sum_list ps / real (length ps))
     \<and> np_percentile ps ((1 - cl) / 2 * 100) = Inr (lower_bound ci)
     \<and> np_percentile ps ((1 - (1 - cl) / 2) * 100) = Inr (upper_bound ci)
     \<and> lower_bound ci \<le> upper_bound ci
     \<and> Min (set ps) \<le> lower_bound ci \<and> upper_bound ci \<le> Max (set ps)
     \<and> Min (set ps) \<le> sum_list ps / real (length ps)
     \<and> sum_list ps / real (length ps) \<le> Max (set ps)"
proof -
  let ?n = "real (length ps - 1)"
  let ?ql = "(1 - cl) / 2 * 100"
  let ?qu = "(1 - (1 - cl) / 2) * 100"
  let ?hl = "?n * (?ql / 100)"
  let ?hu = "?n * (?qu / 100)"
  have eql: "?ql = 50 - 50 * cl" by (simp add: diff_divide_distrib algebra_simps)
  have equ: "?qu = 50 + 50 * cl" by (simp add: diff_divide_distrib algebra_simps)
  have ql1: "0 \<le> ?ql" unfolding eql using assms(3) by linarith
  have ql2: "?ql \<le> 100" unfolding eql using assms(2) by linarith
  have qu1: "0 \<le> ?qu" unfolding equ using assms(2) by linarith
  have qu2: "?qu \<le> 100" unfolding equ using assms(3) by linarith
  note ql = ql1 ql2
  note qu = qu1 qu2
  have n0: "0 \<le> ?n" by simp
  have "0 \<le> ?ql / 100" using ql(1) by (rule divide_nonneg_nonneg) simp
  then have hl0: "0 \<le> ?hl" by (intro mult_nonneg_nonneg n0)
  have "?ql \<le> ?qu" unfolding eql equ using assms(2) by linarith
  then have "?ql / 100 \<le> ?qu / 100" by (rule divide_right_mono) simp
  then have hlu: "?hl \<le> ?hu" using n0 by (rule mult_left_mono)
  have "?qu / 100 \<le> 100 / 100" using qu(2) by (rule divide_right_mono) simp
  then have "?qu / 100 \<le> 1" by simp
  then have "?hu \<le> ?n * 1" using n0 by (rule mult_left_mono)
  then have hun: "?hu \<le> ?n" by simp
  have ne: "sort ps \<noteq> []" using assms(1) by (metis length_0_conv length_sort)
  have hun': "?hu \<le> real (length (sort ps) - 1)" using hun by simp
  have ord: "linear_interp (sort ps) ?hl \<le> linear_interp (sort ps) ?hu"
    by (rule linear_interp_mono [OF _ ne hl0 hlu hun']) simp
  have hu0: "0 \<le> ?hu" using hl0 hlu by linarith
  have hln: "?hl \<le> ?n" using hlu hun by linarith
  have lo: "Min (set ps) \<le> linear_interp (sort ps) ?hl"
    using linear_interp_in_range [OF assms(1) hl0 hln] by simp
  have hi: "linear_interp (sort ps) ?hu \<le> Max (set ps)"
    using linear_interp_in_range [OF assms(1) hu0 hun] by simp
  have pl: "np_percentile ps ?ql = Inr (linear_interp (sort ps) ?hl)"
    by (rule np_percentile_Inr [OF assms(1) ql])
  have pu: "np_percentile ps ?qu = Inr (linear_interp (sort ps) ?hu)"
    by (rule np_percentile_Inr [OF assms(1) qu])
  have st: "bootstrap_statistics ps cl =
     Inr \<lparr>prediction = np_mean ps,
          lower_bound = linear_interp (sort ps) ?hl,
          upper_bound = linear_interp (sort ps) ?hu,
          standard_error = np_std ps,
          confidence_level = cl\<rparr>"
    unfolding bootstrap_statistics_def Let_def pl pu by simp
  have m: "np_mean ps = Some (sum_list ps / real (length ps))"
    using assms(1) by (simp add: np_mean_def)
  show ?thesis
    unfolding st m
    using ord lo hi pl pu mean_in_range [OF assms(1)] by simp
qed

lemma bootstrap_iteration_value:
  assumes "fs \<noteq> []" and "team_data \<noteq> []"
    and "filter (\<lambda>r. team r = team (hd team_data)) (smp i hist) = tb" and "tb \<noteq> []"
    and "\<forall>r\<in>set tb. weight_is_normal (y - season_end_year r)"
  shows "bootstrap_iteration smp rf g hist team_data fs y i =
     Inr (Some (adjust_prediction
                  (rf (map (\<lambda>r. map (\<lambda>f. col f r) fs) (smp i hist))
                      (map position (smp i hist))
                      (map (\<lambda>f. sum_list (map (\<lambda>r. col f r * real_weight y r) tb)
                                 / sum_list (map (real_weight y) tb)) fs))
                  (fst (calculate_recent_form_score g tb y 3))),
          snd (calculate_recent_form_score g tb y 3))"
proof -
  obtain r0 rest where td: "team_data = r0 # rest" using assms(2) by (cases team_data) auto
  have smp: "smp i hist \<noteq> []" using assms(3,4) by auto
  have tb: "filter (\<lambda>r. team r = team r0) (smp i hist) = tb" using assms(3) td by simp
  let ?v = "\<lambda>f. sum_list (map (\<lambda>r. col f r * real_weight y r) tb)
                 / sum_list (map (real_weight y) tb)"
  have sel: "select_values (map (\<lambda>f. (f, ?v f)) fs) fs = Some (map ?v fs)"
    by (rule select_values_tabulate) simp
  show ?thesis
    using assms(1,4) smp
    by (simp add: bootstrap_iteration_def rf_fit_def td tb
        weighted_average_Inr [OF assms(4,5)] predict_adjusted_def sel Let_def)
qed

lemma skewed_sampler_a12:
  "skewed_sampler i [row_a1, row_a2] = (if i < 4 then [row_a1, row_a1] else [row_a2, row_a2])"
  by (simp add: skewed_sampler_def)

lemma crfs_old_rows: "calculate_recent_form_score g [r, r] 2030 3 = (0, g)"
  if "season_end_year r < 2027"
  using that by (simp add: calculate_recent_form_score_def recent_rows_def)

lemma skewed_iteration:
  "bootstrap_iteration skewed_sampler mean_regressor g [row_a1, row_a2] [row_a1, row_a2]
      features 2030 i = Inr (Some (if i < 4 then 12 else 8), g)"
proof (cases "i < 4")
  case True
  have sm: "skewed_sampler i [row_a1, row_a2] = [row_a1, row_a1]"
    using True by (simp add: skewed_sampler_a12)
  have old: "season_end_year row_a1 < 2027" by (simp add: row_a1_def)
  have pos: "position row_a1 = 12" by (simp add: row_a1_def)
  have fs: "features \<noteq> []" by (simp add: features_def)
  have "weight_is_normal (2030 - season_end_year row_a1)"
    by (rule weight_is_normal_range) (simp_all add: row_a1_def)
  then have nrm: "\<forall>r\<in>set [row_a1, row_a1]. weight_is_normal (2030 - season_end_year r)"
    by simp
  show ?thesis
    using True fs nrm bootstrap_iteration_value [of features "[row_a1, row_a2]" skewed_sampler i
        "[row_a1, row_a2]" "[row_a1, row_a1]" 2030 mean_regressor g]
    by (simp add: sm crfs_old_rows [OF old] mean_regressor_def pos adjust_prediction_def)
next
  case False
  have sm: "skewed_sampler i [row_a1, row_a2] = [row_a2, row_a2]"
    using False by (simp add: skewed_sampler_a12)
  have old: "season_end_year row_a2 < 2027" by (simp add: row_a2_def)
  have pos: "position row_a2 = 8" by (simp add: row_a2_def)
  have tm: "team row_a2 = team row_a1" by (simp add: row_a1_def row_a2_def)
  have fs: "features \<noteq> []" by (simp add: features_def)
  have "weight_is_normal (2030 - season_end_year row_a2)"
    by (rule weight_is_normal_range) (simp_all add: row_a2_def)
  then have nrm: "\<forall>r\<in>set [row_a2, row_a2]. weight_is_normal (2030 - season_end_year r)"
    by simp
  show ?thesis
    using False fs nrm bootstrap_iteration_value [of features "[row_a1, row_a2]" skewed_sampler i
        "[row_a1, row_a2]" "[row_a2, row_a2]" 2030 mean_regressor g]
    by (simp add: sm tm crfs_old_rows [OF old] mean_regressor_def pos adjust_prediction_def)
qed

lemma skewed_iterations:
  "bootstrap_iterations skewed_sampler mean_regressor zero_rng [row_a1, row_a2]
      [row_a1, row_a2] features 2030 [0..<5] = Inr ([12, 12, 12, 12, 8], zero_rng)"
proof -
  have "[0..<5] = [0, 1, 2, 3, 4::nat]" by (simp add: upt_rec)
  then show ?thesis by (simp add: skewed_iteration)
qed

lemma skewed_statistics:
  "bootstrap_statistics [12, 12, 12, 12, 8] (1 / 2) =
     Inr \<lparr>prediction = Some (56 / 5), lower_bound = 12, upper_bound = 12,
          standard_error = np_std [12, 12, 12, 12, 8], confidence_level = 1 / 2\<rparr>"
  by (simp add: bootstrap_statistics_def np_percentile_def linear_interp_def np_mean_def
      Let_def)

text \<open>
  Claim C1 fails on the code: a run of five iterations at confidence level 0.5 collects
  the predictions 12, 12, 12, 12, 8; their mean 11.2 is below the lower bound 12.
\<close>

theorem bootstrap_interval_counterexample:
  "(case bootstrap_confidence_interval_recent_form skewed_sampler mean_regressor zero_rng
           [row_a1, row_a2] [row_a1, row_a2] features 2030 5 (1 / 2) of
      Inl e \<Rightarrow> False
    | Inr (iv, g') \<Rightarrow>
        prediction iv = Some (56 / 5) \<and> lower_bound iv = 12 \<and> upper_bound iv = 12
        \<and> \<not> lower_bound iv \<le> 56 / 5)"
  by (simp add: bootstrap_confidence_interval_recent_form_def skewed_iterations
      skewed_statistics)

text \<open>
  Claim C1 as amended. For a run that collects at least one prediction, with a
  confidence level in \<open>[0, 1]\<close>: the estimator returns an interval whose point estimate
  is the mean of the collected predictions and whose bounds are their
  \<open>(alpha / 2)\<close> and \<open>(1 - alpha / 2)\<close> percentiles with \<open>alpha = 1 - confidence_level\<close>;
  \<open>lower_bound \<le> upper_bound\<close>, and the point estimate and both bounds lie between the
  least and the greatest collected prediction. No order between the point estimate
  and the bounds is stated.
\<close>

theorem bootstrap_interval_ordered:
  assumes "bootstrap_iterations smp rf g hist team_data fs y [0..<n] = Inr (ps, g')"
    and "ps \<noteq> []" and "0 \<le> cl" and "cl \<le> 1"
  shows "\<exists>ci. bootstrap_confidence_interval_recent_form smp rf g hist team_data fs y n cl
           = Inr (ci, g')
     \<and> prediction ci = Some (sum_list ps / real (length ps))
     \<and> np_percentile ps ((1 - cl) / 2 * 100) = Inr (lower_bound ci)
     \<and> np_percentile ps ((1 - (1 - cl) / 2) * 100) = Inr (upper_bound ci)
     \<and> lower_bound ci \<le> upper_bound ci
     \<and> Min (set ps) \<le> lower_bound ci \<and> upper_bound ci \<le> Max (set ps)
     \<and> Min (set ps) \<le> sum_list ps / real (length ps)
     \<and> sum_list ps / real (length ps) \<le> Max (set ps)"
proof -
  obtain ci where ci: "bootstrap_statistics ps cl = Inr ci"
    and rest: "prediction ci = Some (sum_list ps / real (length ps))
     \<and> np_percentile ps ((1 - cl) / 2 * 100) = Inr (lower_bound ci)
     \<and> np_percentile ps ((1 - (1 - cl) / 2) * 100) = Inr (upper_bound ci)
     \<and> lower_bound ci \<le> upper_bound ci
     \<and> Min (set ps) \<le> lower_bound ci \<and> upper_bound ci \<le> Max (set ps)
     \<and> Min (set ps) \<le> sum_list ps / real (length ps)
     \<and> sum_list ps / real (length ps) \<le> Max (set ps)"
    using bootstrap_statistics_ordered [OF assms(2,3,4)] by blast
  have "bootstrap_confidence_interval_recent_form smp rf g hist team_data fs y n cl
           = Inr (ci, g')"
    using assms(1) ci by (simp add: bootstrap_confidence_interval_recent_form_def)
  then show ?thesis using rest by blast
qed

theorem bootstrap_interval_ordered_witness:
  "\<exists>ci. bootstrap_confidence_interval_recent_form skewed_sampler mean_regressor zero_rng
           [row_a1, row_a2] [row_a1, row_a2] features 2030 5 (1 / 2) = Inr (ci, zero_rng)
     \<and> prediction ci = Some (56 / 5)
     \<and> lower_bound ci \<le> upper_bound ci
     \<and> 8 \<le> lower_bound ci \<and> upper_bound ci \<le> 12"
proof -
  have h: "[12, 12, 12, 12, 8] \<noteq> ([] :: real list)" "(0::real) \<le> 1 / 2" "(1 / 2 :: real) \<le> 1"
    by simp_all
  from bootstrap_interval_ordered [OF skewed_iterations h]
  obtain ci where a: "bootstrap_confidence_interval_recent_form skewed_sampler mean_regressor
        zero_rng [row_a1, row_a2] [row_a1, row_a2] features 2030 5 (1 / 2) = Inr (ci, zero_rng)"
    and b: "prediction ci = Some (sum_list [12, 12, 12, 12, 8] / real (length [12, 12, 12, 12, 8 :: real]))"
    and c: "lower_bound ci \<le> upper_bound ci"
    and d: "Min (set [12, 12, 12, 12, 8]) \<le> lower_bound ci"
    and e: "upper_bound ci \<le> Max (set [12, 12, 12, 12, 8])"
    by blast
  from b have b': "prediction ci = Some (56 / 5)" by simp
  from d have d': "8 \<le> lower_bound ci" by simp
  from e have e': "upper_bound ci \<le> 12" by simp
  show ?thesis using a b' c d' e' by blast
qed

section \<open>Reproducibility of the bootstrap\<close>

lemma fit_years_no_jitter:
  assumes "2 \<le> length (remdups (map season_end_year rd))"
  shows "fit_years g rd =
     (map (\<lambda>r. real_of_int (season_end_year r - Min (set (map season_end_year rd)))) rd, g)"
proof -
  let ?m = "Min (set (map season_end_year rd))"
  let ?f = "\<lambda>y. real_of_int (y - ?m)"
  have inj: "inj_on ?f (set (map season_end_year rd))" by (simp add: inj_on_def)
  have "length (remdups (map (\<lambda>r. ?f (season_end_year r)) rd))
      = card (?f ` set (map season_end_year rd))"
    by (simp add: length_remdups_card_conv image_image)
  also have "\<dots> = card (set (map season_end_year rd))" by (rule card_image [OF inj])
  also have "\<dots> = length (remdups (map season_end_year rd))"
    by (simp add: length_remdups_card_conv)
  finally have "\<not> length (remdups (map (\<lambda>r. ?f (season_end_year r)) rd)) < 2"
    using assms by simp
  then show ?thesis by (simp add: fit_years_def Let_def)
qed

lemma remdups_years_sort:
  "length (remdups (map season_end_year (sort_key season_end_year rd)))
     = length (remdups (map season_end_year rd))"
  by (simp add: length_remdups_card_conv)

lemma crfs_no_jitter:
  assumes "\<not> needs_jitter team_data y"
  shows "calculate_recent_form_score g team_data y 3 =
     (fst (calculate_recent_form_score g0 team_data y 3), g)"
proof (cases "length (recent_rows team_data y 3) < 2")
  case True
  then show ?thesis by (simp add: calculate_recent_form_score_def)
next
  case False
  let ?rd = "sort_key season_end_year (recent_rows team_data y 3)"
  have "2 \<le> length (remdups (map season_end_year (recent_rows team_data y 3)))"
    using assms False by (simp add: needs_jitter_def Let_def)
  then have two: "2 \<le> length (remdups (map season_end_year ?rd))"
    by (simp only: remdups_years_sort)
  show ?thesis
    using False
    by (simp add: calculate_recent_form_score_def fit_years_no_jitter [OF two] Let_def
        split: option.splits)
qed

lemma weighted_average_no_jitter:
  assumes "\<not> needs_jitter tb y"
  shows "weighted_average g tb fs y =
     map_sum id (apsnd (\<lambda>_. g)) (weighted_average g0 tb fs y)"
proof -
  have c: "calculate_recent_form_score g tb y 3 =
      (fst (calculate_recent_form_score g0 tb y 3), g)"
    by (rule crfs_no_jitter [OF assms])
  show ?thesis
    unfolding weighted_average_def c
    by (simp split: sum.splits prod.splits)
qed

lemma bootstrap_iteration_no_jitter:
  assumes "\<not> needs_jitter (filter (\<lambda>r. team r = team (hd team_data)) (smp i hist)) y"
  shows "bootstrap_iteration smp rf g hist team_data fs y i =
     map_sum id (apsnd (\<lambda>_. g)) (bootstrap_iteration smp rf g0 hist team_data fs y i)"
proof (cases "rf_fit rf (smp i hist) fs position")
  case (Inl e)
  then show ?thesis by (simp add: bootstrap_iteration_def)
next
  case (Inr m)
  show ?thesis
  proof (cases team_data)
    case Nil
    then show ?thesis using Inr by (simp add: bootstrap_iteration_def)
  next
    case (Cons r0 rest)
    let ?tb = "filter (\<lambda>r. team r = team r0) (smp i hist)"
    have nj: "\<not> needs_jitter ?tb y" using assms Cons by simp
    show ?thesis
    proof (cases "?tb = []")
      case True
      then show ?thesis using Inr Cons by (simp add: bootstrap_iteration_def)
    next
      case False
      show ?thesis
        using Inr Cons False
        by (simp add: bootstrap_iteration_def weighted_average_no_jitter [OF nj, of g fs g0]
            split: sum.splits prod.splits)
    qed
  qed
qed

lemma bootstrap_iterations_no_jitter:
  assumes "\<forall>i\<in>set seeds.
      \<not> needs_jitter (filter (\<lambda>r. team r = team (hd team_data)) (smp i hist)) y"
  shows "bootstrap_iterations smp rf g hist team_data fs y seeds =
     map_sum id (apsnd (\<lambda>_. g)) (bootstrap_iterations smp rf g0 hist team_data fs y seeds)"
  using assms
proof (induction seeds arbitrary: g g0)
  case Nil
  then show ?case by simp
next
  case (Cons i seeds)
  have nj: "\<not> needs_jitter (filter (\<lambda>r. team r = team (hd team_data)) (smp i hist)) y"
    using Cons.prems by simp
  have rest: "\<forall>i\<in>set seeds.
      \<not> needs_jitter (filter (\<lambda>r. team r = team (hd team_data)) (smp i hist)) y"
    using Cons.prems by simp
  have it: "bootstrap_iteration smp rf g hist team_data fs y i =
     map_sum id (apsnd (\<lambda>_. g)) (bootstrap_iteration smp rf g0 hist team_data fs y i)"
    using nj by (rule bootstrap_iteration_no_jitter [of team_data smp i hist y rf g fs g0])
  show ?case
  proof (cases "bootstrap_iteration smp rf g0 hist team_data fs y i")
    case (Inl e)
    then show ?thesis using it by simp
  next
    case (Inr pg)
    obtain p g1 where pg: "pg = (p, g1)" by (cases pg)
    have a: "bootstrap_iteration smp rf g hist team_data fs y i = Inr (p, g)"
      using it Inr pg by simp
    show ?thesis
      using a Inr pg Cons.IH [OF rest, of g g1]
      by (simp split: sum.splits prod.splits)
  qed
qed

lemma bootstrap_ci_no_jitter:
  assumes "\<forall>i<n.
      \<not> needs_jitter (filter (\<lambda>r. team r = team (hd team_data)) (smp i hist)) y"
  shows "bootstrap_confidence_interval_recent_form smp rf g hist team_data fs y n cl =
     map_sum id (apsnd (\<lambda>_. g))
       (bootstrap_confidence_interval_recent_form smp rf g0 hist team_data fs y n cl)"
proof -
  have "\<forall>i\<in>set [0..<n].
      \<not> needs_jitter (filter (\<lambda>r. team r = team (hd team_data)) (smp i hist)) y"
    using assms by simp
  then have "bootstrap_iterations smp rf g hist team_data fs y [0..<n] =
     map_sum id (apsnd (\<lambda>_. g)) (bootstrap_iterations smp rf g0 hist team_data fs y [0..<n])"
    by (rule bootstrap_iterations_no_jitter [of "[0..<n]" team_data smp hist y rf g fs g0])
  then show ?thesis
    by (simp add: bootstrap_confidence_interval_recent_form_def split: sum.splits prod.splits)
qed

lemma recent_c12: "recent_rows [row_c1, row_c2] 2024 3 = [row_c1, row_c2]"
  by (simp add: recent_rows_def row_c1_def row_c2_def)

lemma sorted_c12: "sort_key season_end_year [row_c1, row_c2] = [row_c1, row_c2]"
  by (simp add: row_c1_def row_c2_def)

lemma fit_years_c12: "fit_years g [row_c1, row_c2] = ([g 0, g 1], \<lambda>i. g (i + 2))"
proof -
  have "[0..<2] = [0, 1::nat]" by (simp add: upt_rec)
  then show ?thesis
    by (simp add: fit_years_def random_normal_def row_c1_def row_c2_def Let_def)
qed

lemma crfs_c12_up:
  "calculate_recent_form_score rng_up [row_c1, row_c2] 2024 3 = (3, \<lambda>i. rng_up (i + 2))"
proof -
  have p: "polyfit_slope [0, 1 / 100] (map points [row_c1, row_c2]) = Some 1000"
    by (simp add: polyfit_slope_def row_c1_def row_c2_def Let_def)
  have q: "polyfit_slope [0, 1 / 100] (map position [row_c1, row_c2]) = Some 0"
    by (simp add: polyfit_slope_def row_c1_def row_c2_def Let_def)
  have g: "[rng_up 0, rng_up 1] = [0, 1 / 100]" by (simp add: rng_up_def)
  show ?thesis
    unfolding calculate_recent_form_score_def Let_def recent_c12 sorted_c12 fit_years_c12 g
    by (simp add: p q clamp_form_def del: list.map)
qed

lemma crfs_c12_down:
  "calculate_recent_form_score rng_down [row_c1, row_c2] 2024 3 = (- 3, \<lambda>i. rng_down (i + 2))"
proof -
  have p: "polyfit_slope [1 / 100, 0] (map points [row_c1, row_c2]) = Some (- 1000)"
    by (simp add: polyfit_slope_def row_c1_def row_c2_def Let_def)
  have q: "polyfit_slope [1 / 100, 0] (map position [row_c1, row_c2]) = Some 0"
    by (simp add: polyfit_slope_def row_c1_def row_c2_def Let_def)
  have g: "[rng_down 0, rng_down 1] = [1 / 100, 0]" by (simp add: rng_down_def)
  show ?thesis
    unfolding calculate_recent_form_score_def Let_def recent_c12 sorted_c12 fit_years_c12 g
    by (simp add: p q clamp_form_def del: list.map)
qed

lemma jitter_iteration:
  "bootstrap_iteration same_sampler mean_regressor g [row_c1, row_c2] [row_c1, row_c2]
      features 2024 0 =
     Inr (Some (adjust_prediction 10
                  (fst (calculate_recent_form_score g [row_c1, row_c2] 2024 3))),
          snd (calculate_recent_form_score g [row_c1, row_c2] 2024 3))"
proof -
  have tm: "team row_c2 = team row_c1" by (simp add: row_c1_def row_c2_def)
  have pos: "position row_c1 = 10" "position row_c2 = 10" by (simp_all add: row_c1_def row_c2_def)
  have fs: "features \<noteq> []" by (simp add: features_def)
  have "weight_is_normal (2024 - season_end_year row_c1)"
    "weight_is_normal (2024 - season_end_year row_c2)"
    by (rule weight_is_normal_range; simp add: row_c1_def row_c2_def)+
  then have nrm: "\<forall>r\<in>set [row_c1, row_c2]. weight_is_normal (2024 - season_end_year r)"
    by simp
  show ?thesis
    using fs nrm bootstrap_iteration_value [of features "[row_c1, row_c2]" same_sampler 0
        "[row_c1, row_c2]" "[row_c1, row_c2]" 2024 mean_regressor g]
    by (simp add: same_sampler_def tm pos mean_regressor_def)
qed

lemma single_statistics:
  assumes "- 1 \<le> cl" and "cl \<le> 1"
  shows "bootstrap_statistics [v] cl =
     Inr \<lparr>prediction = Some v, lower_bound = v, upper_bound = v,
          standard_error = Some 0, confidence_level = cl\<rparr>"
proof -
  have "0 \<le> (1 - cl) / 2 * 100" "(1 - cl) / 2 * 100 \<le> 100"
    "0 \<le> (1 - (1 - cl) / 2) * 100" "(1 - (1 - cl) / 2) * 100 \<le> 100"
    using assms by simp_all
  then show ?thesis
    by (simp add: bootstrap_statistics_def np_percentile_def linear_interp_def np_mean_def
        np_std_def Let_def)
qed

lemma jitter_run_up:
  "bootstrap_confidence_interval_recent_form same_sampler mean_regressor rng_up
      [row_c1, row_c2] [row_c1, row_c2] features 2024 1 (95 / 100) =
     Inr (\<lparr>prediction = Some (197 / 20), lower_bound = 197 / 20, upper_bound = 197 / 20,
           standard_error = Some 0, confidence_level = 95 / 100\<rparr>, \<lambda>i. rng_up (i + 2))"
  by (simp add: bootstrap_confidence_interval_recent_form_def jitter_iteration crfs_c12_up
      adjust_prediction_def single_statistics)

lemma jitter_run_down:
  "bootstrap_confidence_interval_recent_form same_sampler mean_regressor rng_down
      [row_c1, row_c2] [row_c1, row_c2] features 2024 1 (95 / 100) =
     Inr (\<lparr>prediction = Some (203 / 20), lower_bound = 203 / 20, upper_bound = 203 / 20,
           standard_error = Some 0, confidence_level = 95 / 100\<rparr>, \<lambda>i. rng_down (i + 2))"
  by (simp add: bootstrap_confidence_interval_recent_form_def jitter_iteration crfs_c12_down
      adjust_prediction_def single_statistics)

text \<open>
  Claim C9 fails on the code: on a dataset that lists one season of a team twice, with
  the same resample and the same model, two states of the global random generator give
  the point estimates 9.85 and 10.15.
\<close>

theorem bootstrap_reproducible_counterexample:
  "map_sum id fst
     (bootstrap_confidence_interval_recent_form same_sampler mean_regressor rng_up
        [row_c1, row_c2] [row_c1, row_c2] features 2024 1 (95 / 100))
   = Inr \<lparr>prediction = Some (197 / 20), lower_bound = 197 / 20, upper_bound = 197 / 20,
           standard_error = Some 0, confidence_level = 95 / 100\<rparr>
   \<and> map_sum id fst
     (bootstrap_confidence_interval_recent_form same_sampler mean_regressor rng_down
        [row_c1, row_c2] [row_c1, row_c2] features 2024 1 (95 / 100))
   = Inr \<lparr>prediction = Some (203 / 20), lower_bound = 203 / 20, upper_bound = 203 / 20,
           standard_error = Some 0, confidence_level = 95 / 100\<rparr>
   \<and> map_sum id fst
     (bootstrap_confidence_interval_recent_form same_sampler mean_regressor rng_up
        [row_c1, row_c2] [row_c1, row_c2] features 2024 1 (95 / 100))
   \<noteq> map_sum id fst
     (bootstrap_confidence_interval_recent_form same_sampler mean_regressor rng_down
        [row_c1, row_c2] [row_c1, row_c2] features 2024 1 (95 / 100))"
  unfolding jitter_run_up jitter_run_down by simp

text \<open>
  Claim C9 as amended. The estimate is a function of the dataset, the team, the
  prediction year, \<open>n_bootstrap\<close>, the confidence level and the state of the global
  random generator: iteration \<open>i\<close> resamples with seed \<open>i\<close> and every model is fitted
  with the one constant seed. When no iteration reaches the noise of line 70 (in every
  resample the team's recent rows are fewer than two or span two different seasons)
  the generator is not read: any two of its states give the same result and leave the
  state as it was.
\<close>

theorem bootstrap_reproducible_without_jitter:
  assumes "\<forall>i<n.
      \<not> needs_jitter (filter (\<lambda>r. team r = team (hd team_data)) (smp i hist)) y"
  shows "bootstrap_confidence_interval_recent_form smp rf g1 hist team_data fs y n cl =
       map_sum id (apsnd (\<lambda>_. g1))
         (bootstrap_confidence_interval_recent_form smp rf g2 hist team_data fs y n cl)
     \<and> map_sum id fst
         (bootstrap_confidence_interval_recent_form smp rf g1 hist team_data fs y n cl) =
       map_sum id fst
         (bootstrap_confidence_interval_recent_form smp rf g2 hist team_data fs y n cl)"
proof -
  have a: "bootstrap_confidence_interval_recent_form smp rf g1 hist team_data fs y n cl =
       map_sum id (apsnd (\<lambda>_. g1))
         (bootstrap_confidence_interval_recent_form smp rf g2 hist team_data fs y n cl)"
    using assms by (rule bootstrap_ci_no_jitter [of n team_data smp hist y rf g1 fs cl g2])
  show ?thesis
    unfolding a
    by (cases "bootstrap_confidence_interval_recent_form smp rf g2 hist team_data fs y n cl")
       (auto simp: a)
qed

theorem bootstrap_reproducible_without_jitter_witness:
  "map_sum id fst
     (bootstrap_confidence_interval_recent_form skewed_sampler mean_regressor zero_rng
        [row_a1, row_a2] [row_a1, row_a2] features 2030 5 (1 / 2))
   = map_sum id fst
     (bootstrap_confidence_interval_recent_form skewed_sampler mean_regressor rng_up
        [row_a1, row_a2] [row_a1, row_a2] features 2030 5 (1 / 2))"
proof -
  have nj: "\<not> needs_jitter (filter P rows) 2030"
    if "\<forall>r\<in>set rows. season_end_year r < 2027" for rows P
  proof -
    have "recent_rows (filter P rows) 2030 3 = []"
      using that by (auto simp: recent_rows_def filter_empty_conv)
    then show ?thesis by (simp add: needs_jitter_def)
  qed
  have old: "season_end_year row_a1 < 2027" "season_end_year row_a2 < 2027"
    by (simp_all add: row_a1_def row_a2_def)
  have h: "\<forall>i<5. \<not> needs_jitter
      (filter (\<lambda>r. team r = team (hd [row_a1, row_a2])) (skewed_sampler i [row_a1, row_a2]))
      2030"
  proof (intro allI impI)
    fix i :: nat
    have "\<forall>r\<in>set (skewed_sampler i [row_a1, row_a2]). season_end_year r < 2027"
      using old by (simp add: skewed_sampler_a12)
    then show "\<not> needs_jitter
      (filter (\<lambda>r. team r = team (hd [row_a1, row_a2])) (skewed_sampler i [row_a1, row_a2]))
      2030"
      by (rule nj)
  qed
  show ?thesis
    using h bootstrap_reproducible_without_jitter [of 5 "[row_a1, row_a2]" skewed_sampler
        "[row_a1, row_a2]" 2030 mean_regressor zero_rng features "1 / 2" rng_up]
    by blast
qed

section \<open>Properties of the cross-validation folds\<close>

lemma cv_team_rows_years:
  "map season_end_year rows = map season_end_year rows' \<Longrightarrow>
     map_sum id (apfst (map fst)) (cv_team_rows m g train fs target t rows) =
     map_sum id (apfst (map fst)) (cv_team_rows m g train fs target t rows')"
proof (induction rows arbitrary: rows' g)
  case Nil
  then show ?case by simp
next
  case (Cons row rows)
  then obtain row' rest' where r': "rows' = row' # rest'"
    and y: "season_end_year row = season_end_year row'"
    and ys: "map season_end_year rows = map season_end_year rest'"
    by (cases rows') auto
  let ?th = "filter (\<lambda>r. team r = t) train"
  show ?case
  proof (cases "?th = []")
    case True
    then show ?thesis using Cons.IH [OF ys, of g] r' by simp
  next
    case False
    show ?thesis
    proof (cases "weighted_average g ?th fs (season_end_year row')")
      case (Inl e)
      then show ?thesis using False r' y by simp
    next
      case wa: (Inr tg)
      obtain tf g1 where tg: "tg = (tf, g1)" by (cases tg)
      show ?thesis
      proof (cases "predict_adjusted m fs tf")
        case (Inl e)
        then show ?thesis using False r' y wa tg by simp
      next
        case (Inr p)
        show ?thesis
          using False r' y wa tg Inr Cons.IH [OF ys, of g1]
          by (cases "cv_team_rows m g1 train fs target t rows";
              cases "cv_team_rows m g1 train fs target t rest'")
             (auto simp: Let_def)
      qed
    qed
  qed
qed

lemma cv_teams_years:
  assumes "\<And>t. map season_end_year (filter (\<lambda>r. team r = t) test) =
                map season_end_year (filter (\<lambda>r. team r = t) test')"
  shows "map_sum id (apfst (map fst)) (cv_teams m g train test fs target ts) =
     map_sum id (apfst (map fst)) (cv_teams m g train test' fs target ts)"
proof (induction ts arbitrary: g)
  case Nil
  then show ?case by simp
next
  case (Cons t ts)
  let ?a = "cv_team_rows m g train fs target t (filter (\<lambda>r. team r = t) test)"
  let ?b = "cv_team_rows m g train fs target t (filter (\<lambda>r. team r = t) test')"
  have ab: "map_sum id (apfst (map fst)) ?a = map_sum id (apfst (map fst)) ?b"
    by (rule cv_team_rows_years [OF assms])
  show ?case
  proof (cases ?a)
    case (Inl e)
    then have "?b = Inl e" using ab by (cases ?b) auto
    then show ?thesis using Inl by simp
  next
    case (Inr pg)
    obtain ps g1 where pg: "pg = (ps, g1)" by (cases pg)
    obtain ps' where b: "?b = Inr (ps', g1)" and pp: "map fst ps = map fst ps'"
      using ab Inr pg by (cases ?b) auto
    show ?thesis
      using Inr pg b pp Cons.IH [of g1]
      by (cases "cv_teams m g1 train test fs target ts";
          cases "cv_teams m g1 train test' fs target ts")
         (auto simp: Let_def)
  qed
qed

lemma keys_filter_years:
  assumes "map (\<lambda>r. (team r, season_end_year r)) xs = map (\<lambda>r. (team r, season_end_year r)) ys"
  shows "map season_end_year (filter (\<lambda>r. team r = t) xs) =
     map season_end_year (filter (\<lambda>r. team r = t) ys)"
proof -
  have h: "map season_end_year (filter (\<lambda>r. team r = t) zs) =
      map snd (filter (\<lambda>k. fst k = t) (map (\<lambda>r. (team r, season_end_year r)) zs))" for zs
    by (induction zs) auto
  show ?thesis unfolding h assms ..
qed

lemma keys_teams:
  assumes "map (\<lambda>r. (team r, season_end_year r)) xs = map (\<lambda>r. (team r, season_end_year r)) ys"
  shows "map team xs = map team ys"
proof -
  have h: "map team zs = map fst (map (\<lambda>r. (team r, season_end_year r)) zs)" for zs
    by simp
  show ?thesis unfolding h assms ..
qed

text \<open>
  Claim C7. In a fold the model is fitted on the rows with
  \<open>season_end_year \<le> train_end\<close> alone, and the predictions of the fold are a function
  of these training rows and of the teams and years of the test rows: two datasets with
  the same training rows and the same (team, year) keys in the test window give the
  same predictions, whatever else their rows after \<open>train_end\<close> hold.
\<close>

theorem cv_fold_no_leakage:
  assumes "train_rows period data = train_rows period data'"
    and "map (\<lambda>r. (team r, season_end_year r)) (test_rows period data) =
         map (\<lambda>r. (team r, season_end_year r)) (test_rows period data')"
  shows "(\<forall>r\<in>set (train_rows period data). season_end_year r \<le> train_end period)
     \<and> map_sum id (apfst (map_option (map fst)))
         (cv_fold_predictions rf g data fs target period) =
       map_sum id (apfst (map_option (map fst)))
         (cv_fold_predictions rf g data' fs target period)"
proof -
  let ?train = "train_rows period data"
  let ?test = "test_rows period data"
  let ?test' = "test_rows period data'"
  have tr: "\<forall>r\<in>set ?train. season_end_year r \<le> train_end period"
    by (simp add: train_rows_def)
  have len: "length ?test = length ?test'"
    using assms(2) by (rule map_eq_imp_length_eq)
  have teams: "map team ?test = map team ?test'" by (rule keys_teams [OF assms(2)])
  have unf: "cv_fold_predictions rf g d fs target period =
      (if train_rows period d = [] \<or> test_rows period d = [] then Inr (None, g)
       else case rf_fit rf (train_rows period d) fs target of
              Inl e \<Rightarrow> Inl e
            | Inr m \<Rightarrow>
                (case cv_teams m g (train_rows period d) (test_rows period d) fs target
                        (unique (map team (test_rows period d))) of
                   Inl e \<Rightarrow> Inl e
                 | Inr (pairs, g') \<Rightarrow> Inr (Some pairs, g')))" for d
    by (auto simp: cv_fold_predictions_def Let_def split: sum.splits)
  have emp: "?test' = [] \<longleftrightarrow> ?test = []" using len by auto
  have eq: "map_sum id (apfst (map_option (map fst)))
         (cv_fold_predictions rf g data fs target period) =
       map_sum id (apfst (map_option (map fst)))
         (cv_fold_predictions rf g data' fs target period)"
  proof (cases "?train = [] \<or> ?test = []")
    case True
    then show ?thesis
      unfolding unf assms(1) [symmetric] emp by auto
  next
    case False
    show ?thesis
    proof (cases "rf_fit rf ?train fs target")
      case (Inl e)
      then show ?thesis
        unfolding unf assms(1) [symmetric] emp using False by simp
    next
      case (Inr m)
      let ?ts = "unique (map team ?test)"
      have c: "map_sum id (apfst (map fst)) (cv_teams m g ?train ?test fs target ?ts) =
          map_sum id (apfst (map fst)) (cv_teams m g ?train ?test' fs target ?ts)"
        by (rule cv_teams_years) (rule keys_filter_years [OF assms(2)])
      show ?thesis
        unfolding unf assms(1) [symmetric] emp teams [symmetric]
        using False Inr c
        by (cases "cv_teams m g ?train ?test fs target ?ts";
            cases "cv_teams m g ?train ?test' fs target ?ts")
           auto
    qed
  qed
  show ?thesis using tr eq by blast
qed

theorem cv_fold_no_leakage_witness:
  "map_sum id (apfst (map_option (map fst)))
     (cv_fold_predictions mean_regressor zero_rng [row_t1, row_t2, row_u1] features position
        first_period) =
   map_sum id (apfst (map_option (map fst)))
     (cv_fold_predictions mean_regressor zero_rng [row_t1, row_t2, row_u2] features position
        first_period)
   \<and> first_period \<in> set cv_periods
   \<and> train_rows first_period [row_t1, row_t2, row_u1] = [row_t1, row_t2]
   \<and> test_rows first_period [row_t1, row_t2, row_u1] = [row_u1]
   \<and> test_rows first_period [row_t1, row_t2, row_u2] = [row_u2]"
proof -
  have a: "train_rows first_period [row_t1, row_t2, row_u1] = [row_t1, row_t2]"
    "train_rows first_period [row_t1, row_t2, row_u2] = [row_t1, row_t2]"
    by (simp_all add: train_rows_def first_period_def row_t1_def row_t2_def row_u1_def
        row_u2_def)
  have b: "test_rows first_period [row_t1, row_t2, row_u1] = [row_u1]"
    "test_rows first_period [row_t1, row_t2, row_u2] = [row_u2]"
    by (simp_all add: test_rows_def first_period_def row_t1_def row_t2_def row_u1_def
        row_u2_def)
  have k: "map (\<lambda>r. (team r, season_end_year r)) [row_u1] =
      map (\<lambda>r. (team r, season_end_year r)) [row_u2]"
    by (simp add: row_u1_def row_u2_def)
  have p: "first_period \<in> set cv_periods"
    by (simp add: first_period_def cv_periods_def)
  have "train_rows first_period [row_t1, row_t2, row_u1] =
      train_rows first_period [row_t1, row_t2, row_u2]"
    by (simp only: a)
  moreover have "map (\<lambda>r. (team r, season_end_year r))
        (test_rows first_period [row_t1, row_t2, row_u1]) =
      map (\<lambda>r. (team r, season_end_year r)) (test_rows first_period [row_t1, row_t2, row_u2])"
    by (simp only: b k)
  ultimately show ?thesis
    using a b p cv_fold_no_leakage [of first_period "[row_t1, row_t2, row_u1]"
        "[row_t1, row_t2, row_u2]" mean_regressor zero_rng features position]
    by blast
qed

end
